theory Spec2Isabelle
  imports Main "HOL-Library.Word" "HOL-Library.Sublist"
begin

unbundle bit_operations_syntax

section \<open>Data model of vmm/pdb.c\<close>

type_synonym BYTE = "8 word"
type_synonym WORD = "16 word"
type_synonym DWORD = "32 word"
type_synonym QWORD = "64 word"
type_synonym WCHAR = "16 word"
type_synonym PDB_HANDLE = QWORD

text \<open>A process is identified by a number; the file only passes \<open>pProcess\<close> on.\<close>

type_synonym PVMM_PROCESS = nat

text \<open>
  \<open>PDB_ENTRY\<close> (pdb.c lines 24-37). The three \<open>LPSTR\<close> fields are pointers to
  duplicated strings: \<open>None\<close> is the NULL pointer. Strings are NUL-free character lists.
\<close>

record PDB_ENTRY =
  qwHash :: QWORD
  vaModuleBase :: QWORD
  szModuleName :: "string option"
  szName :: "string option"
  pbGUID :: "BYTE list"
  dwAge :: DWORD
  cbModuleSize :: DWORD
  fLoadFailed :: bool
  szPath :: "string option"
  qwLoadAddress :: QWORD

text \<open>What \<open>Ob_Alloc\<close> with \<open>LMEM_ZEROINIT\<close> hands out: every field zero.\<close>

definition PDB_ENTRY_zero :: PDB_ENTRY where
  "PDB_ENTRY_zero =
     \<lparr> qwHash = 0, vaModuleBase = 0, szModuleName = None, szName = None,
       pbGUID = replicate 16 0, dwAge = 0, cbModuleSize = 0,
       fLoadFailed = False, szPath = None, qwLoadAddress = 0 \<rparr>"

text \<open>
  Modelled from the spec: the \<open>OB_MAP\<close> container (ObMap_ExistsKey, ObMap_Push,
  ObMap_GetByKey, ObMap_Size, ObMap_GetByIndex) lives in ob/ob_map.c, which is not part of
  this file. The spec describes the two indices as hash indices over shared entries in which
  a key "maps to the first Entry registered" and "later registrations under the same name
  are dropped (no-op)"; the linear scan of pdb.c walks it by index. So a map is the list of
  its (key, object address) pairs in insertion order, and a push under a key that is
  already present changes nothing.
\<close>

type_synonym OB_MAP = "(QWORD \<times> nat) list"

definition ObMap_ExistsKey :: "OB_MAP \<Rightarrow> QWORD \<Rightarrow> bool" where
  "ObMap_ExistsKey pm qwKey = (map_of pm qwKey \<noteq> None)"

definition ObMap_Push :: "OB_MAP \<Rightarrow> QWORD \<Rightarrow> nat \<Rightarrow> OB_MAP" where
  "ObMap_Push pm qwKey pvObject =
     (if ObMap_ExistsKey pm qwKey then pm else pm @ [(qwKey, pvObject)])"

definition ObMap_GetByKey :: "OB_MAP \<Rightarrow> QWORD \<Rightarrow> nat option" where
  "ObMap_GetByKey pm qwKey = map_of pm qwKey"

definition ObMap_Size :: "OB_MAP \<Rightarrow> nat" where
  "ObMap_Size pm = length pm"

definition ObMap_GetByIndex :: "OB_MAP \<Rightarrow> nat \<Rightarrow> nat option" where
  "ObMap_GetByIndex pm i = (if i < length pm then Some (snd (pm ! i)) else None)"

text \<open>
  \<open>VMMWIN_PDB_CONTEXT\<close> (lines 71-84) without the library handles, the lock and the
  function table: the functions of the symbol library are the fields of \<open>environment\<close> below.
\<close>

record VMMWIN_PDB_CONTEXT =
  fDisabled :: bool
  pmPdbByHash :: OB_MAP
  pmPdbByModule :: OB_MAP
  qwLoadAddressNext :: QWORD

text \<open>
  Code of the repository that pdb.c calls and that is not in this file, taken as
  parameters: the string hash of util.c, the file-name normalisation of util.c (the model
  gives the wide characters written to the buffer; their number is the return value), and
  the reserved handle of pdb.h.
\<close>

record externals =
  Util_HashStringA :: "string \<Rightarrow> QWORD"
  Util_PathFileNameFix_Registry :: "string \<Rightarrow> WCHAR list"
  PDB_HANDLE_KERNEL :: PDB_HANDLE

record PE_CODEVIEW =
  PdbFileName :: string
  Guid :: "BYTE list"
  Age :: DWORD

record SYMBOL_INFO =
  si_Index :: DWORD
  si_Size :: DWORD
  si_ModBase :: QWORD
  si_Address :: QWORD

text \<open>
  What \<open>SymGetTypeInfoEx\<close> delivers for one child under the request list \<open>_INFO1_ReqKinds\<close>
  (lines 912-917) and for one type id under \<open>_INFO2_ReqKinds\<close> (lines 931-940). A wide
  string is the list of its characters; a request that brings nothing leaves zero (NULL).
\<close>

record DT_REQ1 =
  r1_SYMNAME :: "WCHAR list option"
  r1_LENGTH :: QWORD
  r1_OFFSET :: DWORD
  r1_TYPEID :: DWORD

record DT_REQ2 =
  r2_SYMNAME :: "WCHAR list option"
  r2_LENGTH :: QWORD
  r2_SYMTAG :: DWORD
  r2_COUNT :: DWORD
  r2_CHILDRENCOUNT :: DWORD
  r2_TYPE :: DWORD
  r2_ARRAYINDEXTYPEID :: DWORD
  r2_BASETYPE :: DWORD

text \<open>
  The answers of the world outside pdb.c during one call: the allocator, PE introspection
  (pe.c), the functions of dbghelp.dll reached through \<open>ctx->pfn\<close>, and the memory of
  the analysed system (\<open>VmmRead\<close> from the system process, the kernel-address test
  \<open>VMM_KADDR\<close> of vmm.h). A function that reports failure returns \<open>None\<close> (or
  \<open>False\<close>, or the zero address). \<open>indeterminate\<close> is the content of a local variable
  that the code reads before anything was stored in it.
\<close>

record environment =
  Ob_Alloc_ok :: bool
  StrDup_ok :: "string \<Rightarrow> bool"
  PE_GetSize :: "PVMM_PROCESS \<Rightarrow> QWORD \<Rightarrow> QWORD"
  PE_GetCodeViewInfo :: "PVMM_PROCESS \<Rightarrow> QWORD \<Rightarrow> PE_CODEVIEW option"
  SymFindFileInPath :: "string option \<Rightarrow> BYTE list \<Rightarrow> DWORD \<Rightarrow> string option"
  SymLoadModuleEx :: "string \<Rightarrow> QWORD \<Rightarrow> DWORD \<Rightarrow> QWORD"
  SymEnumSymbols :: "QWORD \<Rightarrow> string \<Rightarrow> bool \<times> SYMBOL_INFO list"
  SymGetTypeFromName :: "QWORD \<Rightarrow> string \<Rightarrow> SYMBOL_INFO option"
  SymEnumTypesByName :: "QWORD \<Rightarrow> string \<Rightarrow> bool \<times> SYMBOL_INFO list"
  SymGetTypeInfo_CHILDRENCOUNT :: "QWORD \<Rightarrow> DWORD \<Rightarrow> DWORD option"
  SymGetTypeInfo_FINDCHILDREN :: "QWORD \<Rightarrow> DWORD \<Rightarrow> DWORD \<Rightarrow> DWORD list option"
  SymGetTypeInfo_SYMNAME :: "QWORD \<Rightarrow> DWORD \<Rightarrow> WCHAR list option"
  SymGetTypeInfo_OFFSET :: "QWORD \<Rightarrow> DWORD \<Rightarrow> DWORD option"
  SymGetTypeInfo_BASETYPE :: "QWORD \<Rightarrow> DWORD \<Rightarrow> DWORD option"
  SymGetTypeInfo_SYMTAG :: "QWORD \<Rightarrow> DWORD \<Rightarrow> DWORD option"
  SymGetTypeInfoEx_CHILDREN :: "QWORD \<Rightarrow> DWORD \<Rightarrow> DT_REQ1 list option"
  SymGetTypeInfoEx_TYPES :: "QWORD \<Rightarrow> DWORD list \<Rightarrow> DT_REQ2 list option"
  VmmRead :: "QWORD \<Rightarrow> nat \<Rightarrow> BYTE list option"
  VMM_KADDR :: "QWORD \<Rightarrow> bool"
  LocalAlloc_ok :: bool
  indeterminate :: DWORD

text \<open>
  The calls that leave pdb.c and that the properties below speak about, in the order in
  which they are made.
\<close>

datatype ext_call =
    Call_SymFindFileInPath "string option" "BYTE list" DWORD
  | Call_SymLoadModuleEx string QWORD DWORD
  | Call_PE_GetCodeViewInfo PVMM_PROCESS QWORD

text \<open>
  The global state pdb.c works on: \<open>ctxVmm->pPdbContext\<close> (\<open>None\<close> while the
  subsystem is not initialized), \<open>ctxVmm->f32\<close>, the store of the \<open>PDB_ENTRY\<close> objects
  (both indices hold the address of the same object, so a write through one is seen
  through the other), the next free address, and the log of outside calls.
\<close>

record vmm_state =
  pPdbContext :: "VMMWIN_PDB_CONTEXT option"
  f32 :: bool
  objs :: "nat \<Rightarrow> PDB_ENTRY"
  ob_next :: nat
  calls :: "ext_call list"

section \<open>Hashing\<close>

text \<open>\<open>*(PQWORD)p\<close> on the little-endian targets the file is built for.\<close>

fun le_bytes :: "BYTE list \<Rightarrow> QWORD" where
  "le_bytes [] = 0"
| "le_bytes (b # bs) = ucast b OR push_bit 8 (le_bytes bs)"

definition PQWORD_at :: "BYTE list \<Rightarrow> nat \<Rightarrow> QWORD" where
  "PQWORD_at pb off = le_bytes (take 8 (drop off pb))"

text \<open>The bytes of a 64-bit value in memory order, the converse of the read above.\<close>

fun bytes_of :: "nat \<Rightarrow> QWORD \<Rightarrow> BYTE list" where
  "bytes_of 0 v = []"
| "bytes_of (Suc n) v = ucast v # bytes_of n (drop_bit 8 v)"

definition PDB_HashPdb :: "externals \<Rightarrow> string \<Rightarrow> BYTE list \<Rightarrow> DWORD \<Rightarrow> QWORD" where
  "PDB_HashPdb x szPdbName pbPdbGUID dwPdbAge =
     (let qwHash = Util_HashStringA x szPdbName;
          qwHash = ucast dwPdbAge + (drop_bit 13 qwHash OR push_bit 51 qwHash);
          qwHash = PQWORD_at pbPdbGUID 0 + (drop_bit 13 qwHash OR push_bit 51 qwHash);
          qwHash = PQWORD_at pbPdbGUID 8 + (drop_bit 13 qwHash OR push_bit 51 qwHash)
      in qwHash)"

definition PDB_HashModuleName :: "externals \<Rightarrow> string \<Rightarrow> DWORD" where
  "PDB_HashModuleName x szModule =
     foldl (\<lambda>dwHash wc. (drop_bit 13 dwHash OR push_bit 19 dwHash) + ucast wc) 0
       (Util_PathFileNameFix_Registry x szModule)"

section \<open>Registry\<close>

definition Util_StrDupA :: "environment \<Rightarrow> string \<Rightarrow> string option" where
  "Util_StrDupA env sz = (if StrDup_ok env sz then Some sz else None)"

definition PDB_AddModuleEntry ::
  "externals \<Rightarrow> environment \<Rightarrow> vmm_state \<Rightarrow> QWORD \<Rightarrow> DWORD \<Rightarrow> string \<Rightarrow> string \<Rightarrow>
   BYTE list \<Rightarrow> DWORD \<Rightarrow> PDB_HANDLE \<times> vmm_state" where
  "PDB_AddModuleEntry x env s vaBase cbSize szModule szPdbName pbPdbGUID dwPdbAge =
     (case pPdbContext s of
        None \<Rightarrow> (0, s)
      | Some ctx \<Rightarrow>
          let qwPdbHash = PDB_HashPdb x szPdbName pbPdbGUID dwPdbAge in
          if \<not> ObMap_ExistsKey (pmPdbByHash ctx) qwPdbHash then
            if \<not> Ob_Alloc_ok env then (0, s)
            else
              let pObPdbEntry = ob_next s;
                  e = PDB_ENTRY_zero
                        \<lparr> dwAge := dwPdbAge, qwHash := qwPdbHash,
                          pbGUID := take 16 pbPdbGUID,
                          szName := Util_StrDupA env szPdbName,
                          szModuleName := Util_StrDupA env szModule,
                          vaModuleBase := vaBase, cbModuleSize := cbSize \<rparr>;
                  ctx1 = ctx \<lparr> pmPdbByHash := ObMap_Push (pmPdbByHash ctx) qwPdbHash pObPdbEntry \<rparr>;
                  ctx2 = ctx1 \<lparr> pmPdbByModule :=
                           ObMap_Push (pmPdbByModule ctx1)
                             (ucast (PDB_HashModuleName x szModule)) pObPdbEntry \<rparr>
              in (qwPdbHash,
                  s \<lparr> pPdbContext := Some ctx2, objs := (objs s)(pObPdbEntry := e),
                      ob_next := Suc pObPdbEntry \<rparr>)
          else (qwPdbHash, s))"

definition PDB_GetHandleFromModuleName ::
  "externals \<Rightarrow> vmm_state \<Rightarrow> string option \<Rightarrow> PDB_HANDLE" where
  "PDB_GetHandleFromModuleName x s szModule =
     (case pPdbContext s of
        None \<Rightarrow> 0
      | Some ctx \<Rightarrow>
          if fDisabled ctx then 0
          else
            let szModule' =
                  (if szModule = None \<or> szModule = Some ''nt''
                   then ''ntoskrnl'' else the szModule);
                dwHashModule = PDB_HashModuleName x szModule'
            in case ObMap_GetByKey (pmPdbByModule ctx) (ucast dwHashModule) of
                 None \<Rightarrow> 0
               | Some pObPdbEntry \<Rightarrow>
                   if fLoadFailed (objs s pObPdbEntry) then 0
                   else qwHash (objs s pObPdbEntry))"

section \<open>Lazy loader\<close>

definition VMMWIN_PDB_LOAD_ADDRESS_STEP :: QWORD where
  "VMMWIN_PDB_LOAD_ADDRESS_STEP = 0x10000000"

definition PDB_LoadEnsureEx :: "environment \<Rightarrow> vmm_state \<Rightarrow> nat \<Rightarrow> bool \<times> vmm_state" where
  "PDB_LoadEnsureEx env s pPdbEntry =
     (case pPdbContext s of
        None \<Rightarrow> (False, s)
      | Some ctx \<Rightarrow>
          let e = objs s pPdbEntry in
          if fLoadFailed e then (False, s)
          else if qwLoadAddress e \<noteq> 0 then (True, s)
          else
            let s1 = s \<lparr> calls := calls s @ [Call_SymFindFileInPath (szName e) (pbGUID e) (dwAge e)] \<rparr>
            in case SymFindFileInPath env (szName e) (pbGUID e) (dwAge e) of
                 None \<Rightarrow>
                   (False, s1 \<lparr> objs := (objs s1)(pPdbEntry := e \<lparr> fLoadFailed := True \<rparr>) \<rparr>)
               | Some szPdbPath \<Rightarrow>
                   let e1 = e \<lparr> szPath := Util_StrDupA env szPdbPath \<rparr>;
                       e2 = e1 \<lparr> qwLoadAddress :=
                              SymLoadModuleEx env szPdbPath (qwLoadAddressNext ctx) (cbModuleSize e1) \<rparr>;
                       ctx1 = ctx \<lparr> qwLoadAddressNext :=
                                qwLoadAddressNext ctx + VMMWIN_PDB_LOAD_ADDRESS_STEP \<rparr>;
                       s2 = s1 \<lparr> pPdbContext := Some ctx1,
                                calls := calls s1 @
                                  [Call_SymLoadModuleEx szPdbPath (qwLoadAddressNext ctx) (cbModuleSize e1)] \<rparr>
                   in if szPath e2 = None \<or> qwLoadAddress e2 = 0
                      then (False, s2 \<lparr> objs := (objs s2)(pPdbEntry := e2 \<lparr> fLoadFailed := True \<rparr>) \<rparr>)
                      else (True, s2 \<lparr> objs := (objs s2)(pPdbEntry := e2) \<rparr>))"

definition PDB_LoadEnsure ::
  "externals \<Rightarrow> environment \<Rightarrow> vmm_state \<Rightarrow> PDB_HANDLE \<Rightarrow> bool \<times> vmm_state" where
  "PDB_LoadEnsure x env s hPDB =
     (case pPdbContext s of
        None \<Rightarrow> (False, s)
      | Some ctx \<Rightarrow>
          if fDisabled ctx \<or> hPDB = 0 then (False, s)
          else
            let hPDB = (if hPDB = PDB_HANDLE_KERNEL x
                        then PDB_GetHandleFromModuleName x s (Some ''ntoskrnl'') else hPDB)
            in case ObMap_GetByKey (pmPdbByHash ctx) hPDB of
                 None \<Rightarrow> (False, s)
               | Some pObPdbEntry \<Rightarrow> PDB_LoadEnsureEx env s pObPdbEntry)"

text \<open>
  A later history of the loader: any sequence of calls of \<open>PDB_LoadEnsureEx\<close> (on any
  entry) and of \<open>PDB_LoadEnsure\<close> (on any handle), each with its own answers of the
  outside world.
\<close>

datatype load_call =
    Call_PDB_LoadEnsureEx environment nat
  | Call_PDB_LoadEnsure environment PDB_HANDLE

fun load_call_env :: "load_call \<Rightarrow> environment" where
  "load_call_env (Call_PDB_LoadEnsureEx env p) = env"
| "load_call_env (Call_PDB_LoadEnsure env h) = env"

fun run_load_call :: "externals \<Rightarrow> load_call \<Rightarrow> vmm_state \<Rightarrow> bool \<times> vmm_state" where
  "run_load_call x (Call_PDB_LoadEnsureEx env p) s = PDB_LoadEnsureEx env s p"
| "run_load_call x (Call_PDB_LoadEnsure env h) s = PDB_LoadEnsure x env s h"

fun run_load_calls :: "externals \<Rightarrow> load_call list \<Rightarrow> vmm_state \<Rightarrow> vmm_state" where
  "run_load_calls x [] s = s"
| "run_load_calls x (c # cs) s = run_load_calls x cs (snd (run_load_call x c s))"

section \<open>Lookup by module address\<close>

text \<open>The loop of lines 179-188 over the indices \<open>i < iMax\<close> of the by-fingerprint map.\<close>

fun PDB_GetHandleFromModuleAddress_find ::
  "vmm_state \<Rightarrow> OB_MAP \<Rightarrow> QWORD \<Rightarrow> nat list \<Rightarrow> PDB_HANDLE option" where
  "PDB_GetHandleFromModuleAddress_find s pm vaBase [] = None"
| "PDB_GetHandleFromModuleAddress_find s pm vaBase (i # is) =
     (case ObMap_GetByIndex pm i of
        None \<Rightarrow> PDB_GetHandleFromModuleAddress_find s pm vaBase is
      | Some pObPdbEntry \<Rightarrow>
          if vaBase = vaModuleBase (objs s pObPdbEntry) then Some (qwHash (objs s pObPdbEntry))
          else PDB_GetHandleFromModuleAddress_find s pm vaBase is)"

text \<open>
  \<open>strstr\<close> followed by writing NUL at the match: the text before the first occurrence
  of the pattern, or the whole text when there is none.
\<close>

fun strstr_cut :: "string \<Rightarrow> string \<Rightarrow> string" where
  "strstr_cut pat [] = []"
| "strstr_cut pat (c # cs) = (if prefix pat (c # cs) then [] else c # strstr_cut pat cs)"

text \<open>
  \<open>PdbFileName\<close> is a fixed array shorter than \<open>MAX_PATH\<close>, so \<open>strcpy_s\<close> copies it whole.
\<close>

definition PDB_GetHandleFromModuleAddress ::
  "externals \<Rightarrow> environment \<Rightarrow> vmm_state \<Rightarrow> PVMM_PROCESS \<Rightarrow> QWORD \<Rightarrow> PDB_HANDLE \<times> vmm_state" where
  "PDB_GetHandleFromModuleAddress x env s pProcess vaBase =
     (case pPdbContext s of
        None \<Rightarrow> (0, s)
      | Some ctx \<Rightarrow>
          (case PDB_GetHandleFromModuleAddress_find s (pmPdbByHash ctx) vaBase
                  [0 ..< ObMap_Size (pmPdbByHash ctx)] of
             Some qwPdbHash \<Rightarrow> (qwPdbHash, s)
           | None \<Rightarrow>
               let cbSize = PE_GetSize env pProcess vaBase in
               if cbSize = 0 \<or> cbSize > 0x04000000 then (0, s)
               else
                 let s1 = s \<lparr> calls := calls s @ [Call_PE_GetCodeViewInfo pProcess vaBase] \<rparr>
                 in case PE_GetCodeViewInfo env pProcess vaBase of
                      None \<Rightarrow> (0, s1)
                    | Some CodeView \<Rightarrow>
                        PDB_AddModuleEntry x env s1 vaBase (ucast cbSize)
                          (strstr_cut ''.pdb'' (PdbFileName CodeView))
                          (PdbFileName CodeView) (Guid CodeView) (Age CodeView)))"

section \<open>Queries\<close>

text \<open>
  The contract of the enumeration functions of dbghelp.dll: the callback is called on each
  match in turn, with the caller's context, until it returns FALSE.
\<close>

fun enumerate_until ::
  "(SYMBOL_INFO \<Rightarrow> DWORD \<Rightarrow> bool \<times> DWORD) \<Rightarrow> SYMBOL_INFO list \<Rightarrow> DWORD \<Rightarrow> DWORD" where
  "enumerate_until cb [] u = u"
| "enumerate_until cb (si # sis) u =
     (case cb si u of (go_on, u') \<Rightarrow> if go_on then enumerate_until cb sis u' else u')"

definition PDB_GetSymbolOffset_Callback :: "SYMBOL_INFO \<Rightarrow> DWORD \<Rightarrow> bool \<times> DWORD" where
  "PDB_GetSymbolOffset_Callback pSymInfo dwSymbolOffset =
     (False,
      if si_Address pSymInfo - si_ModBase pSymInfo < 0x10000000
      then ucast (si_Address pSymInfo - si_ModBase pSymInfo) else dwSymbolOffset)"

text \<open>
  The shared prologue of the handle-taking queries (for example lines 320-322): the entry
  the handle stands for, if the subsystem is there and enabled.
\<close>

definition PDB_entry_of_handle :: "externals \<Rightarrow> vmm_state \<Rightarrow> PDB_HANDLE \<Rightarrow> nat option" where
  "PDB_entry_of_handle x s hPDB =
     (case pPdbContext s of
        None \<Rightarrow> None
      | Some ctx \<Rightarrow>
          if fDisabled ctx \<or> hPDB = 0 then None
          else ObMap_GetByKey (pmPdbByHash ctx)
                 (if hPDB = PDB_HANDLE_KERNEL x
                  then PDB_GetHandleFromModuleName x s (Some ''ntoskrnl'') else hPDB))"

text \<open>
  An \<open>_Out_\<close> pointer is modelled by the content of the cell it points to: the function
  takes the content before the call and returns the content after it.
\<close>

definition PDB_GetSymbolOffset ::
  "externals \<Rightarrow> environment \<Rightarrow> vmm_state \<Rightarrow> PDB_HANDLE \<Rightarrow> string \<Rightarrow> bool \<times> DWORD \<times> vmm_state" where
  "PDB_GetSymbolOffset x env s hPDB szSymbolName =
     (case PDB_entry_of_handle x s hPDB of
        None \<Rightarrow> (False, 0, s)
      | Some pObPdbEntry \<Rightarrow>
          (case PDB_LoadEnsureEx env s pObPdbEntry of
             (loaded, s1) \<Rightarrow>
               if loaded then
                 if f32 s1 then
                   (case SymEnumSymbols env (qwLoadAddress (objs s1 pObPdbEntry)) szSymbolName of
                      (ok, syms) \<Rightarrow>
                        let dwSymbolOffset = enumerate_until PDB_GetSymbolOffset_Callback syms 0
                        in if ok then
                             if dwSymbolOffset = 0 then (False, dwSymbolOffset, s1)
                             else (True, dwSymbolOffset, s1)
                           else (False, dwSymbolOffset, s1))
                 else
                   (case SymGetTypeFromName env (qwLoadAddress (objs s1 pObPdbEntry)) szSymbolName of
                      None \<Rightarrow> (False, 0, s1)
                    | Some SymbolInfo \<Rightarrow>
                        (True, ucast (si_Address SymbolInfo - si_ModBase SymbolInfo), s1))
               else (False, 0, s1)))"

definition PDB_GetTypeSize ::
  "externals \<Rightarrow> environment \<Rightarrow> vmm_state \<Rightarrow> PDB_HANDLE \<Rightarrow> string \<Rightarrow> DWORD \<Rightarrow>
   bool \<times> DWORD \<times> vmm_state" where
  "PDB_GetTypeSize x env s hPDB szTypeName dwTypeSize =
     (case PDB_entry_of_handle x s hPDB of
        None \<Rightarrow> (False, dwTypeSize, s)
      | Some pObPdbEntry \<Rightarrow>
          (case PDB_LoadEnsureEx env s pObPdbEntry of
             (loaded, s1) \<Rightarrow>
               if loaded then
                 (case SymGetTypeFromName env (qwLoadAddress (objs s1 pObPdbEntry)) szTypeName of
                    None \<Rightarrow> (False, 0, s1)
                  | Some SymbolInfo \<Rightarrow> (si_Size SymbolInfo \<noteq> 0, si_Size SymbolInfo, s1))
               else (False, dwTypeSize, s1)))"

text \<open>
  \<open>pwTypeSize\<close> may be NULL (\<open>None\<close>); otherwise it points to a 16-bit cell. The local
  \<open>dwTypeSize\<close> starts with indeterminate content.
\<close>

definition PDB_GetTypeSizeShort ::
  "externals \<Rightarrow> environment \<Rightarrow> vmm_state \<Rightarrow> PDB_HANDLE \<Rightarrow> string \<Rightarrow> WORD option \<Rightarrow>
   bool \<times> WORD option \<times> vmm_state" where
  "PDB_GetTypeSizeShort x env s hPDB szTypeName pwTypeSize =
     (case PDB_GetTypeSize x env s hPDB szTypeName (indeterminate env) of
        (ok, dwTypeSize, s1) \<Rightarrow>
          if ok then
            if dwTypeSize > 0xffff then (False, pwTypeSize, s1)
            else (True, map_option (\<lambda>_. ucast dwTypeSize) pwTypeSize, s1)
          else (False, pwTypeSize, s1))"

definition PDB_GetTypeChildOffset_Callback :: "SYMBOL_INFO \<Rightarrow> DWORD \<Rightarrow> bool \<times> DWORD" where
  "PDB_GetTypeChildOffset_Callback pSymInfo dwTypeId = (False, si_Index pSymInfo)"

text \<open>The loop of lines 511-521 over the child ids.\<close>

fun PDB_GetTypeChildOffset_children ::
  "environment \<Rightarrow> QWORD \<Rightarrow> WCHAR list \<Rightarrow> DWORD list \<Rightarrow> DWORD \<Rightarrow> bool \<times> DWORD" where
  "PDB_GetTypeChildOffset_children env la wszTypeChildName [] dwTypeOffset = (False, dwTypeOffset)"
| "PDB_GetTypeChildOffset_children env la wszTypeChildName (ChildId # ids) dwTypeOffset =
     (case SymGetTypeInfo_SYMNAME env la ChildId of
        None \<Rightarrow> PDB_GetTypeChildOffset_children env la wszTypeChildName ids dwTypeOffset
      | Some wszTypeChildSymName \<Rightarrow>
          if wszTypeChildName = wszTypeChildSymName then
            (case SymGetTypeInfo_OFFSET env la ChildId of
               Some off \<Rightarrow> (True, off)
             | None \<Rightarrow> PDB_GetTypeChildOffset_children env la wszTypeChildName ids dwTypeOffset)
          else PDB_GetTypeChildOffset_children env la wszTypeChildName ids dwTypeOffset)"

text \<open>
  Lines 506-521, after the load: the type lookup, the child list and the loop. The child-id
  array is allocated zeroed with \<open>cTypeChildren\<close> slots, and the loop visits exactly
  these slots.
\<close>

definition PDB_GetTypeChildOffset_loaded ::
  "environment \<Rightarrow> QWORD \<Rightarrow> string \<Rightarrow> WCHAR list \<Rightarrow> DWORD \<Rightarrow> bool \<times> DWORD" where
  "PDB_GetTypeChildOffset_loaded env la szTypeName wszTypeChildName dwTypeOffset =
     (case SymEnumTypesByName env la szTypeName of
        (ok, syms) \<Rightarrow>
          let dwTypeId = enumerate_until PDB_GetTypeChildOffset_Callback syms (indeterminate env)
          in if ok \<and> dwTypeId \<noteq> 0 then
               (case SymGetTypeInfo_CHILDRENCOUNT env la dwTypeId of
                  None \<Rightarrow> (False, dwTypeOffset)
                | Some cTypeChildren \<Rightarrow>
                    if cTypeChildren = 0 then (False, dwTypeOffset)
                    else if LocalAlloc_ok env then
                      (case SymGetTypeInfo_FINDCHILDREN env la dwTypeId cTypeChildren of
                         None \<Rightarrow> (False, dwTypeOffset)
                       | Some ChildId \<Rightarrow>
                           PDB_GetTypeChildOffset_children env la wszTypeChildName
                             (take (unat cTypeChildren) (ChildId @ replicate (unat cTypeChildren) 0))
                             dwTypeOffset)
                    else (False, dwTypeOffset))
             else (False, dwTypeOffset))"

definition PDB_GetTypeChildOffset ::
  "externals \<Rightarrow> environment \<Rightarrow> vmm_state \<Rightarrow> PDB_HANDLE \<Rightarrow> string \<Rightarrow> WCHAR list \<Rightarrow> DWORD \<Rightarrow>
   bool \<times> DWORD \<times> vmm_state" where
  "PDB_GetTypeChildOffset x env s hPDB szTypeName wszTypeChildName dwTypeOffset =
     (case PDB_entry_of_handle x s hPDB of
        None \<Rightarrow> (False, dwTypeOffset, s)
      | Some pObPdbEntry \<Rightarrow>
          (case PDB_LoadEnsureEx env s pObPdbEntry of
             (loaded, s1) \<Rightarrow>
               if loaded then
                 (case PDB_GetTypeChildOffset_loaded env (qwLoadAddress (objs s1 pObPdbEntry))
                         szTypeName wszTypeChildName dwTypeOffset of
                    (fResult, off) \<Rightarrow> (fResult, off, s1))
               else (False, dwTypeOffset, s1)))"

definition PDB_GetTypeChildOffsetShort ::
  "externals \<Rightarrow> environment \<Rightarrow> vmm_state \<Rightarrow> PDB_HANDLE \<Rightarrow> string \<Rightarrow> WCHAR list \<Rightarrow> WORD option \<Rightarrow>
   bool \<times> WORD option \<times> vmm_state" where
  "PDB_GetTypeChildOffsetShort x env s hPDB szTypeName wszTypeChildName pwTypeOffset =
     (case PDB_GetTypeChildOffset x env s hPDB szTypeName wszTypeChildName (indeterminate env) of
        (ok, dwTypeOffset, s1) \<Rightarrow>
          if ok then
            if dwTypeOffset > 0xffff then (False, pwTypeOffset, s1)
            else (True, map_option (\<lambda>_. ucast dwTypeOffset) pwTypeOffset, s1)
          else (False, pwTypeOffset, s1))"

section \<open>Type display\<close>

text \<open>\<open>PDB_DT_INFO\<close> (lines 845-859).\<close>

record PDB_DT_INFO =
  wszName :: "WCHAR list option"
  wszTypeName :: "WCHAR list option"
  qwBitFieldLength :: QWORD
  qwLength :: QWORD
  dwTag :: DWORD
  dwPtrTag :: DWORD
  dwOffset :: DWORD
  dwTypeIndex :: DWORD
  dwBaseType :: DWORD
  dwArrayCount :: DWORD
  dwChildCount :: DWORD
  dwPtrTypeIndex :: DWORD
  dwArrayTypeIndex :: DWORD

definition PDB_DT_INFO_zero :: PDB_DT_INFO where
  "PDB_DT_INFO_zero =
     \<lparr> wszName = None, wszTypeName = None, qwBitFieldLength = 0, qwLength = 0, dwTag = 0,
       dwPtrTag = 0, dwOffset = 0, dwTypeIndex = 0, dwBaseType = 0, dwArrayCount = 0,
       dwChildCount = 0, dwPtrTypeIndex = 0, dwArrayTypeIndex = 0 \<rparr>"

text \<open>
  \<open>PDB_DT_CONTEXT\<close> (lines 833-843): the fields the worker reads. \<open>pfn\<close> stands for the
  function table and the other outside functions the worker calls. The result text
  \<open>szu8\<close> is represented by the worker's list of events (below) instead of bytes.
\<close>

record PDB_DT_CONTEXT =
  pfn :: environment
  BaseOfDll :: QWORD
  iLevelMax :: BYTE

text \<open>The values of \<open>enum SymTagEnum\<close> (dbghelp) that the worker tests.\<close>

definition SymTagUDT :: DWORD where "SymTagUDT = 11"
definition SymTagFunctionType :: DWORD where "SymTagFunctionType = 13"
definition SymTagPointerType :: DWORD where "SymTagPointerType = 14"
definition SymTagArrayType :: DWORD where "SymTagArrayType = 15"
definition SymTagBaseType :: DWORD where "SymTagBaseType = 16"

text \<open>A wide string literal \<open>L"..."\<close>.\<close>

definition wstr :: "string \<Rightarrow> WCHAR list" where
  "wstr s = map of_char s"

text \<open>
  A line of output is kept as the list of the \<open>_snwprintf_s\<close> calls that wrote it into
  \<open>wszln\<close>, each with its arguments, in order:
  \<^item> \<open>P_offset_name iLevel dwOffset wszName\<close>: the format \<open>"%*s  +0x%03x %-*s : "\<close>;
  \<^item> \<open>P_array dwArrayCount\<close>: \<open>"[%i] "\<close>;
  \<^item> \<open>P_ptr\<close>: \<open>"Ptr: "\<close>;
  \<^item> \<open>P_udt wszTypeName\<close>: \<open>"%s"\<close> with the name of the aggregate type;
  \<^item> \<open>P_type wszName wszBuffer\<close>: \<open>"%s%s"\<close> with the type name and the bit annotation;
  \<^item> \<open>P_data wszFormat v\<close>: the decoded value under the chosen format;
  \<^item> \<open>P_string wszBuffer\<close>: \<open>" - %s"\<close>, the text of a _UNICODE_STRING.
  The cut at \<open>MAX_PATH\<close> characters per line and at \<open>cszMax\<close> bytes for the whole text
  are not represented.
\<close>

datatype DT_PIECE =
    P_offset_name BYTE DWORD "WCHAR list option"
  | P_array DWORD
  | P_ptr
  | P_udt "WCHAR list option"
  | P_type "WCHAR list" "WCHAR list"
  | P_data string QWORD
  | P_string "WCHAR list"

text \<open>
  What one run of the worker does, in order: \<open>DoWork_entered\<close> records an invocation of
  \<open>PDB_DisplayTypeNt_DoWork\<close> with its \<open>iLevel\<close>, \<open>dwTypeIndex\<close> and \<open>dwChildCount\<close>;
  \<open>DoWork_commit\<close> is a line handed to \<open>Util_snwprintf_u8\<close> for the result text.
\<close>

datatype DT_EVENT =
    DoWork_entered BYTE DWORD DWORD
  | DoWork_commit "DT_PIECE list"

definition PDB_DisplayTypeNt_GetTypeName :: "PDB_DT_INFO \<Rightarrow> QWORD \<Rightarrow> WCHAR list" where
  "PDB_DisplayTypeNt_GetTypeName pDT cbType =
     (case wszTypeName pDT of
        Some n \<Rightarrow> n
      | None \<Rightarrow>
          let b = dwBaseType pDT in
          if b = 1 then wstr ''void''
          else if b = 2 then wstr ''char''
          else if b = 3 then wstr ''wchar''
          else if b = 8 then wstr ''float''
          else if b = 9 then wstr ''bcd''
          else if b = 10 then wstr ''bool''
          else if b = 25 then wstr ''currency''
          else if b = 26 then wstr ''date''
          else if b = 27 then wstr ''variant''
          else if b = 28 then wstr ''complex''
          else if b = 29 then wstr ''bit''
          else if b = 30 then wstr ''BSTR''
          else if b = 31 then wstr ''HRESULT''
          else if b = 6 \<or> b = 13 then
            (if cbType = 1 then wstr ''int8''
             else if cbType = 2 then wstr ''int16''
             else if cbType = 4 then wstr ''int32''
             else if cbType = 8 then wstr ''int64''
             else wstr ''int??'')
          else if b = 7 \<or> b = 14 then
            (if cbType = 1 then wstr ''byte''
             else if cbType = 2 then wstr ''word''
             else if cbType = 4 then wstr ''dword''
             else if cbType = 8 then wstr ''uint64''
             else wstr ''uint??'')
          else if b = - 1 then wstr ''function''
          else if b = - 2 then wstr ''pointer''
          else wstr ''???'')"

text \<open>Steps 1 and 2 of the worker (lines 969-1003): the two batched requests.\<close>

definition DoWork_info1 :: "DT_REQ1 \<Rightarrow> PDB_DT_INFO" where
  "DoWork_info1 r =
     PDB_DT_INFO_zero \<lparr> wszName := r1_SYMNAME r, qwBitFieldLength := r1_LENGTH r,
                        dwOffset := r1_OFFSET r, dwTypeIndex := r1_TYPEID r \<rparr>"

definition DoWork_info2 :: "PDB_DT_INFO \<Rightarrow> DT_REQ2 \<Rightarrow> PDB_DT_INFO" where
  "DoWork_info2 pe r =
     pe \<lparr> wszTypeName := r2_SYMNAME r, qwLength := r2_LENGTH r, dwTag := r2_SYMTAG r,
          dwArrayCount := r2_COUNT r, dwChildCount := r2_CHILDRENCOUNT r,
          dwPtrTypeIndex := r2_TYPE r, dwArrayTypeIndex := r2_ARRAYINDEXTYPEID r,
          dwBaseType := r2_BASETYPE r \<rparr>"

fun DoWork_fill2 :: "PDB_DT_INFO list \<Rightarrow> DT_REQ2 list \<Rightarrow> PDB_DT_INFO list" where
  "DoWork_fill2 [] rs = []"
| "DoWork_fill2 (pe # pes) [] = pe # pes"
| "DoWork_fill2 (pe # pes) (r # rs) = DoWork_info2 pe r # DoWork_fill2 pes rs"

definition DoWork_fetch :: "PDB_DT_CONTEXT \<Rightarrow> DWORD \<Rightarrow> DWORD \<Rightarrow> PDB_DT_INFO list option" where
  "DoWork_fetch ctxDT dwTypeIndex' dwChildCount' =
     (if LocalAlloc_ok (pfn ctxDT) then
        (case SymGetTypeInfoEx_CHILDREN (pfn ctxDT) (BaseOfDll ctxDT) dwTypeIndex' of
           None \<Rightarrow> None
         | Some r1 \<Rightarrow>
             if unat dwChildCount' = length r1 then
               let pInfo = map DoWork_info1 r1 in
               (case SymGetTypeInfoEx_TYPES (pfn ctxDT) (BaseOfDll ctxDT) (map dwTypeIndex pInfo) of
                  None \<Rightarrow> None
                | Some r2 \<Rightarrow> Some (DoWork_fill2 pInfo r2))
             else None)
      else None)"

text \<open>Step 3, per child: the size of one element (line 1008).\<close>

definition DoWork_cbType :: "PDB_DT_INFO \<Rightarrow> QWORD" where
  "DoWork_cbType pe =
     (if dwArrayCount pe \<noteq> 0 then qwLength pe div ucast (dwArrayCount pe) else qwLength pe)"

text \<open>Lines 1009-1011: the name of the element or pointee type, when the type has none.\<close>

definition DoWork_ptr_name :: "PDB_DT_CONTEXT \<Rightarrow> PDB_DT_INFO \<Rightarrow> PDB_DT_INFO" where
  "DoWork_ptr_name ctxDT pe =
     (if wszTypeName pe = None \<and> dwPtrTypeIndex pe \<noteq> 0 \<and>
         (dwTag pe = SymTagArrayType \<or> dwTag pe = SymTagPointerType)
      then pe \<lparr> wszTypeName :=
                  SymGetTypeInfo_SYMNAME (pfn ctxDT) (BaseOfDll ctxDT) (dwPtrTypeIndex pe) \<rparr>
      else pe)"

text \<open>Lines 1012-1016: the bit cursor at the start of a child.\<close>

definition DoWork_bit_base :: "QWORD \<Rightarrow> QWORD \<Rightarrow> QWORD \<Rightarrow> QWORD" where
  "DoWork_bit_base cbTypeLast cbType qwBitBase =
     (if qwBitBase \<noteq> 0 then
        if cbTypeLast \<noteq> cbType \<or> qwBitBase \<ge> push_bit 3 cbType \<or>
           (cbType \<noteq> 1 \<and> cbType \<noteq> 2 \<and> cbType \<noteq> 4 \<and> cbType \<noteq> 8)
        then 0 else qwBitBase
      else qwBitBase)"

text \<open>Lines 1024-1038: the base type behind a pointer without a type name.\<close>

definition DoWork_ptr_base :: "PDB_DT_CONTEXT \<Rightarrow> PDB_DT_INFO \<Rightarrow> PDB_DT_INFO" where
  "DoWork_ptr_base ctxDT pe =
     (if dwPtrTypeIndex pe \<noteq> 0 \<and> wszTypeName pe = None then
        let pe1 = (case SymGetTypeInfo_BASETYPE (pfn ctxDT) (BaseOfDll ctxDT) (dwPtrTypeIndex pe) of
                     Some b \<Rightarrow> pe \<lparr> dwBaseType := b \<rparr> | None \<Rightarrow> pe)
        in if dwBaseType pe1 = 0 then
             let pe2 = (case SymGetTypeInfo_SYMTAG (pfn ctxDT) (BaseOfDll ctxDT) (dwPtrTypeIndex pe1) of
                          Some tg \<Rightarrow> pe1 \<lparr> dwPtrTag := tg \<rparr> | None \<Rightarrow> pe1);
                 pe3 = (if dwPtrTag pe2 = SymTagFunctionType then pe2 \<lparr> dwBaseType := - 1 \<rparr> else pe2);
                 pe4 = (if dwPtrTag pe3 = SymTagPointerType then pe3 \<lparr> dwBaseType := - 2 \<rparr> else pe3)
             in pe4
           else pe1
      else pe)"

text \<open>
  Lines 1040-1044: three kinds of aggregate are shown as plain values. \<open>_wcsnicmp\<close> with
  length 4 compares the first four characters without regard to case.
\<close>

definition wcsnicmp_EX :: "WCHAR list \<Rightarrow> bool" where
  "wcsnicmp_EX n =
     (case take 4 n of
        [a, b, c, d] \<Rightarrow> a = 0x5F \<and> (b = 0x45 \<or> b = 0x65) \<and> (c = 0x58 \<or> c = 0x78) \<and> d = 0x5F
      | _ \<Rightarrow> False)"

definition DoWork_is_special :: "PDB_DT_INFO \<Rightarrow> bool" where
  "DoWork_is_special pe =
     (case wszTypeName pe of
        None \<Rightarrow> False
      | Some n \<Rightarrow>
          dwTag pe = SymTagUDT \<and>
          (n = wstr ''_LARGE_INTEGER'' \<or> wcsnicmp_EX n \<or> n = wstr ''_KEVENT''))"

definition DoWork_special :: "PDB_DT_INFO \<Rightarrow> PDB_DT_INFO" where
  "DoWork_special pe = (if DoWork_is_special pe then pe \<lparr> dwTag := SymTagBaseType \<rparr> else pe)"

text \<open>Lines 1018-1026: the start of the line.\<close>

definition DoWork_line_head :: "BYTE \<Rightarrow> PDB_DT_INFO \<Rightarrow> DT_PIECE list" where
  "DoWork_line_head iLevel pe =
     [P_offset_name iLevel (dwOffset pe) (wszName pe)] @
     (if dwArrayCount pe \<noteq> 0 then [P_array (dwArrayCount pe)] else []) @
     (if dwPtrTypeIndex pe \<noteq> 0 then [P_ptr] else [])"

text \<open>\<open>%lli\<close>: a 64-bit value as a signed decimal number.\<close>

function dec_digits :: "nat \<Rightarrow> WCHAR list" where
  "dec_digits n =
     (if n < 10 then [48 + of_nat n] else dec_digits (n div 10) @ [48 + of_nat (n mod 10)])"
  by pat_completeness auto
termination
  by (relation "measure id") auto

definition fmt_lli :: "QWORD \<Rightarrow> WCHAR list" where
  "fmt_lli q =
     (if sint q < 0 then of_char CHR ''-'' # dec_digits (nat (- sint q))
      else dec_digits (nat (sint q)))"

text \<open>
  Lines 1054-1057: the bit annotation in \<open>wszBuffer\<close>, which has room for 31 characters.
\<close>

definition DoWork_wszBuffer :: "QWORD \<Rightarrow> QWORD \<Rightarrow> WCHAR list" where
  "DoWork_wszBuffer qwBitBase qwBitFieldLength' =
     (if qwBitFieldLength' \<noteq> 0 then
        take 31 (wstr '' bit['' @ fmt_lli qwBitBase @ wstr '':'' @
                 fmt_lli (qwBitBase + qwBitFieldLength' - 1) @ wstr '']'')
      else [])"

text \<open>
  Memory behind \<open>pbMEM\<close> is a function from byte offsets to bytes, so \<open>pbMEM + n\<close> is the
  function shifted by \<open>n\<close>. Lines 1061-1080: the decoded value. Shift counts of 64 and
  more, which C leaves undefined, follow \<open>drop_bit\<close> and \<open>push_bit\<close>.
\<close>

definition DoWork_data :: "(nat \<Rightarrow> BYTE) option \<Rightarrow> PDB_DT_INFO \<Rightarrow> QWORD \<Rightarrow> QWORD \<Rightarrow> DT_PIECE list" where
  "DoWork_data pbMEM pe cbType qwBitBase =
     (case pbMEM of
        None \<Rightarrow> []
      | Some m \<Rightarrow>
          if (dwTag pe = SymTagBaseType \<or> dwTag pe = SymTagPointerType) \<and>
             (cbType = 1 \<or> cbType = 2 \<or> cbType = 4 \<or> cbType = 8) then
            let v0 = le_bytes (map m [unat (dwOffset pe) ..< unat (dwOffset pe) + unat cbType]);
                v = (if qwBitFieldLength pe \<noteq> 0
                     then drop_bit (unat qwBitBase) v0 AND (push_bit (unat (qwBitFieldLength pe)) 1 - 1)
                     else v0)
            in [P_data (if v < 10 then ''%*s : %llX''
                        else if cbType = 1 then ''%*s : 0x%02llX''
                        else if cbType = 2 then ''%*s : 0x%04llX''
                        else if cbType = 4 then ''%*s : 0x%08llX''
                        else ''%*s : 0x%016llX'') v]
          else [])"

text \<open>Lines 1082-1091: the text a _UNICODE_STRING points to.\<close>

fun wchars_of :: "BYTE list \<Rightarrow> WCHAR list" where
  "wchars_of (lo # hi # bs) = (ucast lo OR push_bit 8 (ucast hi)) # wchars_of bs"
| "wchars_of bs = []"

definition DoWork_unicode_string ::
  "bool \<Rightarrow> PDB_DT_CONTEXT \<Rightarrow> DWORD \<Rightarrow> WCHAR list option \<Rightarrow> (nat \<Rightarrow> BYTE) option \<Rightarrow> nat \<Rightarrow>
   DT_PIECE list" where
  "DoWork_unicode_string f32' ctxDT dwChildCount' wszType pbMEM i =
     (case pbMEM of
        None \<Rightarrow> []
      | Some m \<Rightarrow>
          if dwChildCount' = 3 \<and> i = 2 \<and> wszType = Some (wstr ''_UNICODE_STRING'') then
            let cbData = le_bytes (map m [0 ..< 2]);
                vaData = (if f32' then le_bytes (map m [4 ..< 8]) else le_bytes (map m [8 ..< 16]))
            in if VMM_KADDR (pfn ctxDT) vaData \<and> cbData \<noteq> 0 \<and> cbData AND 1 = 0 \<and> cbData < 520 then
                 (case VmmRead (pfn ctxDT) vaData (unat cbData) of
                    None \<Rightarrow> []
                  | Some bs \<Rightarrow>
                      [P_string (takeWhile (\<lambda>w. w \<noteq> 0)
                                   (take (unat (drop_bit 1 cbData)) (wchars_of bs)))])
               else []
          else [])"

text \<open>
  Line 1050: whether the worker descends into the children of an aggregate field.
\<close>

definition DoWork_descend ::
  "PDB_DT_CONTEXT \<Rightarrow> BYTE \<Rightarrow> PDB_DT_INFO \<Rightarrow> (nat \<Rightarrow> BYTE) option \<Rightarrow> DWORD \<Rightarrow> bool" where
  "DoWork_descend ctxDT iLevel pe pbMEM cbMEM \<longleftrightarrow>
     dwChildCount pe \<noteq> 0 \<and> iLevel < iLevelMax ctxDT \<and>
     (pbMEM = None \<or> ucast (dwOffset pe) + qwLength pe \<le> ucast cbMEM)"

text \<open>
  The worker (lines 910-1110) and the loop of its step 3 over the children \<open>pInfo[i]\<close>,
  which carries \<open>i\<close>, \<open>cbTypeLast\<close> and \<open>qwBitBase\<close> from child to child. A failed
  request ends the invocation with what was written before.
\<close>

function PDB_DisplayTypeNt_DoWork ::
    "bool \<Rightarrow> PDB_DT_CONTEXT \<Rightarrow> BYTE \<Rightarrow> DWORD \<Rightarrow> DWORD \<Rightarrow> WCHAR list option \<Rightarrow>
     (nat \<Rightarrow> BYTE) option \<Rightarrow> DWORD \<Rightarrow> DT_EVENT list"
  and PDB_DisplayTypeNt_DoWork_interpret ::
    "bool \<Rightarrow> PDB_DT_CONTEXT \<Rightarrow> BYTE \<Rightarrow> DWORD \<Rightarrow> WCHAR list option \<Rightarrow>
     (nat \<Rightarrow> BYTE) option \<Rightarrow> DWORD \<Rightarrow> nat \<Rightarrow> QWORD \<Rightarrow> QWORD \<Rightarrow> PDB_DT_INFO list \<Rightarrow> DT_EVENT list"
where
  "PDB_DisplayTypeNt_DoWork f32' ctxDT iLevel dwTypeIndex' dwChildCount' wszType pbMEM cbMEM =
     DoWork_entered iLevel dwTypeIndex' dwChildCount' #
     (case DoWork_fetch ctxDT dwTypeIndex' dwChildCount' of
        None \<Rightarrow> []
      | Some pInfo \<Rightarrow>
          PDB_DisplayTypeNt_DoWork_interpret f32' ctxDT iLevel dwChildCount' wszType pbMEM cbMEM
            0 0 0 pInfo)"
| "PDB_DisplayTypeNt_DoWork_interpret f32' ctxDT iLevel dwChildCount' wszType pbMEM cbMEM
     i cbTypeLast qwBitBase [] = []"
| "PDB_DisplayTypeNt_DoWork_interpret f32' ctxDT iLevel dwChildCount' wszType pbMEM cbMEM
     i cbTypeLast qwBitBase (pe0 # pInfo) =
     (let cbType = DoWork_cbType pe0;
          pe1 = DoWork_ptr_name ctxDT pe0;
          qwBitBase1 = DoWork_bit_base cbTypeLast cbType qwBitBase;
          pe = DoWork_special (DoWork_ptr_base ctxDT pe1)
      in (if dwTag pe = SymTagUDT then
            DoWork_commit (DoWork_line_head iLevel pe @ [P_udt (wszTypeName pe)]) #
            (if DoWork_descend ctxDT iLevel pe pbMEM cbMEM
             then PDB_DisplayTypeNt_DoWork f32' ctxDT (iLevel + 1) (dwTypeIndex pe) (dwChildCount pe)
                    (wszTypeName pe)
                    (map_option (\<lambda>m k. m (unat (dwOffset pe) + k)) pbMEM)
                    (if pbMEM = None then 0 else cbMEM - dwOffset pe)
             else [])
          else
            [DoWork_commit
               (DoWork_line_head iLevel pe @
                [P_type (PDB_DisplayTypeNt_GetTypeName pe cbType)
                        (DoWork_wszBuffer qwBitBase1 (qwBitFieldLength pe))] @
                DoWork_data pbMEM pe cbType qwBitBase1 @
                DoWork_unicode_string f32' ctxDT dwChildCount' wszType pbMEM i)]) @
         PDB_DisplayTypeNt_DoWork_interpret f32' ctxDT iLevel dwChildCount' wszType pbMEM cbMEM
           (Suc i) cbType (qwBitBase1 + qwBitFieldLength pe) pInfo)"
  by pat_completeness auto
termination
proof (relation "inv_image (less_than <*lex*> less_than <*lex*> less_than)
         (\<lambda>a. case a of
                Inl (f, c, l, r) \<Rightarrow> (unat (iLevelMax c) - unat l, Suc 0, 0)
              | Inr (f, c, l, d, w, m, b, i, t, q, ps) \<Rightarrow>
                  (unat (iLevelMax c) - unat l, 0, length ps))", goal_cases)
  case 1
  show ?case by (intro wf_inv_image wf_lex_prod wf_less_than)
next
  case 2
  show ?case by simp
next
  case (3 f32' ctxDT iLevel dwChildCount' wszType pbMEM cbMEM i cbTypeLast qwBitBase pe0 pInfo)
  from 3 have "iLevel < iLevelMax ctxDT" by (simp add: DoWork_descend_def)
  then have lt: "unat iLevel < unat (iLevelMax ctxDT)" by (simp add: word_less_nat_alt)
  moreover have "unat (iLevelMax ctxDT) < 2 ^ 8"
    using unsigned_less [of "iLevelMax ctxDT", where 'a = nat] by simp
  ultimately have "unat iLevel + unat (1 :: BYTE) < 2 ^ LENGTH(8)" by simp
  then have "unat (iLevel + 1) = Suc (unat iLevel)" by (simp add: unat_add_lem [THEN iffD1])
  with lt show ?case by simp
next
  case 4
  show ?case by simp
qed

text \<open>
  What is read off a run of the worker: the \<open>iLevel\<close> of each invocation, the lines
  committed, and the bit annotations of a line.
\<close>

fun DoWork_levels :: "DT_EVENT list \<Rightarrow> BYTE list" where
  "DoWork_levels [] = []"
| "DoWork_levels (DoWork_entered iLevel ti cc # evs) = iLevel # DoWork_levels evs"
| "DoWork_levels (DoWork_commit ln # evs) = DoWork_levels evs"

fun DoWork_lines :: "DT_EVENT list \<Rightarrow> DT_PIECE list list" where
  "DoWork_lines [] = []"
| "DoWork_lines (DoWork_entered iLevel ti cc # evs) = DoWork_lines evs"
| "DoWork_lines (DoWork_commit ln # evs) = ln # DoWork_lines evs"

fun line_bits :: "DT_PIECE list \<Rightarrow> WCHAR list list" where
  "line_bits [] = []"
| "line_bits (P_type n b # ps) = b # line_bits ps"
| "line_bits (p # ps) = line_bits ps"

section \<open>Example instances\<close>

text \<open>
  Concrete parameters on which the model is run below: a rotate-and-add string hash, a
  file-name normalisation that only widens the characters, the all-ones reserved handle,
  and a symbol library in which every request succeeds.
\<close>

definition ex_externals :: externals where
  "ex_externals =
     \<lparr> Util_HashStringA = foldl (\<lambda>h c. (drop_bit 13 h OR push_bit 51 h) + of_char c) 0,
       Util_PathFileNameFix_Registry = map of_char,
       PDB_HANDLE_KERNEL = - 1 \<rparr>"

definition ex_env :: environment where
  "ex_env =
     \<lparr> Ob_Alloc_ok = True,
       StrDup_ok = (\<lambda>_. True),
       PE_GetSize = (\<lambda>_ _. 0x2000),
       PE_GetCodeViewInfo = (\<lambda>_ _. Some \<lparr> PdbFileName = ''hal.pdb'', Guid = replicate 16 2, Age = 1 \<rparr>),
       SymFindFileInPath = (\<lambda>n _ _. map_option (\<lambda>n. ''C:/Symbols/'' @ n) n),
       SymLoadModuleEx = (\<lambda>_ base _. base),
       SymEnumSymbols = (\<lambda>_ _. (True, [\<lparr> si_Index = 1, si_Size = 0, si_ModBase = 0x1000, si_Address = 0x1234 \<rparr>])),
       SymGetTypeFromName = (\<lambda>_ _. Some \<lparr> si_Index = 7, si_Size = 0x18, si_ModBase = 0x1000, si_Address = 0x1000 \<rparr>),
       SymEnumTypesByName = (\<lambda>_ _. (True, [\<lparr> si_Index = 7, si_Size = 0x18, si_ModBase = 0x1000, si_Address = 0x1000 \<rparr>])),
       SymGetTypeInfo_CHILDRENCOUNT = (\<lambda>_ _. Some 2),
       SymGetTypeInfo_FINDCHILDREN = (\<lambda>_ _ _. Some [21, 22]),
       SymGetTypeInfo_SYMNAME = (\<lambda>_ i. if i = 21 then Some (wstr ''Flink'') else if i = 22 then Some (wstr ''Blink'') else None),
       SymGetTypeInfo_OFFSET = (\<lambda>_ i. if i = 21 then Some 0 else if i = 22 then Some 8 else None),
       SymGetTypeInfo_BASETYPE = (\<lambda>_ _. None),
       SymGetTypeInfo_SYMTAG = (\<lambda>_ _. None),
       SymGetTypeInfoEx_CHILDREN = (\<lambda>_ _. None),
       SymGetTypeInfoEx_TYPES = (\<lambda>_ _. None),
       VmmRead = (\<lambda>_ _. None),
       VMM_KADDR = (\<lambda>_. False),
       LocalAlloc_ok = True,
       indeterminate = 0xCCCCCCCC \<rparr>"

definition ex_state0 :: vmm_state where
  "ex_state0 =
     \<lparr> pPdbContext = Some \<lparr> fDisabled = False, pmPdbByHash = [], pmPdbByModule = [],
                             qwLoadAddressNext = 0x0000511f00000000 \<rparr>,
       f32 = False, objs = (\<lambda>_. PDB_ENTRY_zero), ob_next = 0, calls = [] \<rparr>"

definition ex_state1 :: vmm_state where
  "ex_state1 = snd (PDB_AddModuleEntry ex_externals ex_env ex_state0 0xfffff80000000000 0x800000
                      ''ntoskrnl'' ''ntkrnlmp.pdb'' (replicate 16 1) 1)"

definition ex_hPDB :: PDB_HANDLE where "ex_hPDB = 9990424309917835612"

definition ex_state2 :: vmm_state where
  "ex_state2 = snd (PDB_LoadEnsureEx ex_env ex_state1 0)"

definition ex_env_nofile :: environment where
  "ex_env_nofile = ex_env \<lparr> SymFindFileInPath := (\<lambda>_ _ _. None) \<rparr>"

definition ex_state_failed :: vmm_state where
  "ex_state_failed = snd (PDB_LoadEnsureEx ex_env_nofile ex_state1 0)"

definition ex_env_big :: environment where
  "ex_env_big = ex_env \<lparr> SymGetTypeFromName :=
     (\<lambda>_ _. Some \<lparr> si_Index = 7, si_Size = 0x10000, si_ModBase = 0x1000, si_Address = 0x1000 \<rparr>),
     SymGetTypeInfo_OFFSET := (\<lambda>_ _. Some 0x10000) \<rparr>"

definition ex_env_sym :: "QWORD \<Rightarrow> environment" where
  "ex_env_sym off = ex_env \<lparr> SymEnumSymbols :=
     (\<lambda>la _. (True, [\<lparr> si_Index = 1, si_Size = 0, si_ModBase = la, si_Address = la + off \<rparr>])) \<rparr>"


definition ex_env_nodup :: environment where
  "ex_env_nodup = ex_env \<lparr> StrDup_ok := (\<lambda>_. False) \<rparr>"



text \<open>
  A small type database for the type display: type 100 has an aggregate field of type
  \<open>_LIST_ENTRY\<close> (type 200, two pointer fields) and a 32-bit field; type 300 has three
  bit fields of 3, 5 and 4 bits held in single bytes.
\<close>

definition ex_children :: "DWORD \<Rightarrow> DT_REQ1 list option" where
  "ex_children ti =
     (if ti = 100 then
        Some [\<lparr> r1_SYMNAME = Some (wstr ''ListHead''), r1_LENGTH = 0, r1_OFFSET = 0, r1_TYPEID = 200 \<rparr>,
              \<lparr> r1_SYMNAME = Some (wstr ''Count''), r1_LENGTH = 0, r1_OFFSET = 0x10, r1_TYPEID = 201 \<rparr>]
      else if ti = 200 then
        Some [\<lparr> r1_SYMNAME = Some (wstr ''Flink''), r1_LENGTH = 0, r1_OFFSET = 0, r1_TYPEID = 202 \<rparr>,
              \<lparr> r1_SYMNAME = Some (wstr ''Blink''), r1_LENGTH = 0, r1_OFFSET = 8, r1_TYPEID = 202 \<rparr>]
      else if ti = 300 then
        Some [\<lparr> r1_SYMNAME = Some (wstr ''A''), r1_LENGTH = 3, r1_OFFSET = 0, r1_TYPEID = 203 \<rparr>,
              \<lparr> r1_SYMNAME = Some (wstr ''B''), r1_LENGTH = 5, r1_OFFSET = 0, r1_TYPEID = 203 \<rparr>,
              \<lparr> r1_SYMNAME = Some (wstr ''C''), r1_LENGTH = 4, r1_OFFSET = 1, r1_TYPEID = 203 \<rparr>]
      else None)"

definition ex_type :: "DWORD \<Rightarrow> DT_REQ2" where
  "ex_type ti =
     (if ti = 200 then
        \<lparr> r2_SYMNAME = Some (wstr ''_LIST_ENTRY''), r2_LENGTH = 16, r2_SYMTAG = 11, r2_COUNT = 0,
          r2_CHILDRENCOUNT = 2, r2_TYPE = 0, r2_ARRAYINDEXTYPEID = 0, r2_BASETYPE = 0 \<rparr>
      else if ti = 201 then
        \<lparr> r2_SYMNAME = None, r2_LENGTH = 4, r2_SYMTAG = 16, r2_COUNT = 0,
          r2_CHILDRENCOUNT = 0, r2_TYPE = 0, r2_ARRAYINDEXTYPEID = 0, r2_BASETYPE = 7 \<rparr>
      else if ti = 202 then
        \<lparr> r2_SYMNAME = None, r2_LENGTH = 8, r2_SYMTAG = 14, r2_COUNT = 0,
          r2_CHILDRENCOUNT = 0, r2_TYPE = 200, r2_ARRAYINDEXTYPEID = 0, r2_BASETYPE = 0 \<rparr>
      else
        \<lparr> r2_SYMNAME = None, r2_LENGTH = 1, r2_SYMTAG = 16, r2_COUNT = 0,
          r2_CHILDRENCOUNT = 0, r2_TYPE = 0, r2_ARRAYINDEXTYPEID = 0, r2_BASETYPE = 7 \<rparr>)"

definition ex_env_dt :: environment where
  "ex_env_dt = ex_env
     \<lparr> SymGetTypeInfo_SYMNAME := (\<lambda>_ ti. if ti = 200 then Some (wstr ''_LIST_ENTRY'') else None),
       SymGetTypeInfoEx_CHILDREN := (\<lambda>_. ex_children),
       SymGetTypeInfoEx_TYPES := (\<lambda>_ ids. Some (map ex_type ids)) \<rparr>"

definition ex_ctxDT :: "BYTE \<Rightarrow> PDB_DT_CONTEXT" where
  "ex_ctxDT cLevelMax = \<lparr> pfn = ex_env_dt, BaseOfDll = 0x0000511f00000000, iLevelMax = cLevelMax \<rparr>"


section \<open>Properties\<close>

subsection \<open>The example instances, evaluated\<close>

lemma ex_hash_kernel: "PDB_HashPdb ex_externals ''ntkrnlmp.pdb'' (replicate 16 1) 1 = 9990424309917835612"
  by code_simp
lemma ex_hash_ntoskrnl: "PDB_HashModuleName ex_externals ''ntoskrnl'' = 1531402980"
  by code_simp

lemma ex_state1_eq:
  "ex_state1 = \<lparr> pPdbContext = Some \<lparr> fDisabled = False, pmPdbByHash = [(9990424309917835612, 0)],
                             pmPdbByModule = [(1531402980, 0)],
                             qwLoadAddressNext = 0x0000511f00000000 \<rparr>,
       f32 = False,
       objs = (\<lambda>_. PDB_ENTRY_zero)(0 := \<lparr> qwHash = 9990424309917835612, vaModuleBase = 0xfffff80000000000,
          szModuleName = Some ''ntoskrnl'', szName = Some ''ntkrnlmp.pdb'', pbGUID = replicate 16 1, dwAge = 1,
          cbModuleSize = 0x800000, fLoadFailed = False, szPath = None, qwLoadAddress = 0\<rparr>),
       ob_next = 1, calls = [] \<rparr>"
  by (simp add: ex_state1_def PDB_AddModuleEntry_def ex_state0_def ex_hash_kernel ex_hash_ntoskrnl
        ObMap_ExistsKey_def ObMap_Push_def ex_env_def Util_StrDupA_def PDB_ENTRY_zero_def)


lemma ex_state2_eq:
  "ex_state2 = \<lparr> pPdbContext = Some \<lparr> fDisabled = False, pmPdbByHash = [(9990424309917835612, 0)],
                             pmPdbByModule = [(1531402980, 0)],
                             qwLoadAddressNext = 0x0000511f10000000 \<rparr>,
       f32 = False,
       objs = (\<lambda>_. PDB_ENTRY_zero)(0 := \<lparr> qwHash = 9990424309917835612, vaModuleBase = 0xfffff80000000000,
          szModuleName = Some ''ntoskrnl'', szName = Some ''ntkrnlmp.pdb'', pbGUID = replicate 16 1, dwAge = 1,
          cbModuleSize = 0x800000, fLoadFailed = False, szPath = Some ''C:/Symbols/ntkrnlmp.pdb'',
          qwLoadAddress = 0x0000511f00000000\<rparr>),
       ob_next = 1,
       calls = [Call_SymFindFileInPath (Some ''ntkrnlmp.pdb'') (replicate 16 1) 1,
                Call_SymLoadModuleEx ''C:/Symbols/ntkrnlmp.pdb'' 0x0000511f00000000 0x800000] \<rparr>"
  by (simp add: ex_state2_def ex_state1_eq PDB_LoadEnsureEx_def ex_env_def Util_StrDupA_def
        VMMWIN_PDB_LOAD_ADDRESS_STEP_def)

lemma ex_state_failed_eq:
  "ex_state_failed = \<lparr> pPdbContext = Some \<lparr> fDisabled = False, pmPdbByHash = [(9990424309917835612, 0)],
                             pmPdbByModule = [(1531402980, 0)],
                             qwLoadAddressNext = 0x0000511f00000000 \<rparr>,
       f32 = False,
       objs = (\<lambda>_. PDB_ENTRY_zero)(0 := \<lparr> qwHash = 9990424309917835612, vaModuleBase = 0xfffff80000000000,
          szModuleName = Some ''ntoskrnl'', szName = Some ''ntkrnlmp.pdb'', pbGUID = replicate 16 1, dwAge = 1,
          cbModuleSize = 0x800000, fLoadFailed = True, szPath = None,
          qwLoadAddress = 0\<rparr>),
       ob_next = 1,
       calls = [Call_SymFindFileInPath (Some ''ntkrnlmp.pdb'') (replicate 16 1) 1] \<rparr>"
  by (simp add: ex_state_failed_def ex_state1_eq PDB_LoadEnsureEx_def ex_env_def ex_env_nofile_def)

lemma ex_entry_of_handle: "PDB_entry_of_handle ex_externals ex_state2 ex_hPDB = Some 0"
  by (simp add: PDB_entry_of_handle_def ex_state2_eq ex_hPDB_def ex_externals_def ObMap_GetByKey_def)

lemma ex_loaded: "PDB_LoadEnsureEx env ex_state2 0 = (True, ex_state2)"
  by (simp add: PDB_LoadEnsureEx_def ex_state2_eq)

lemma ex_state2_la: "qwLoadAddress (objs ex_state2 0) = 0x0000511f00000000"
  by (simp add: ex_state2_eq)


subsection \<open>Lookup by module name\<close>





subsection \<open>Lookup by module address\<close>

lemma PDB_GetHandleFromModuleAddress_find_None:
  "(\<And>i. i \<in> set is \<Longrightarrow> i < length pm \<Longrightarrow> vaModuleBase (objs s (snd (pm ! i))) \<noteq> va)
   \<Longrightarrow> PDB_GetHandleFromModuleAddress_find s pm va is = None"
  by (induction "is") (auto simp: ObMap_GetByIndex_def)


text \<open>
  Claim C7. When no registered entry is bound to the module base and the image size that
  \<open>PE_GetSize\<close> reports is zero or above 0x04000000 (64 MiB),
  \<open>PDB_GetHandleFromModuleAddress\<close> returns zero and leaves the whole state as it was:
  nothing is registered and \<open>PE_GetCodeViewInfo\<close> is not called (the log of calls is part of
  the state).
\<close>

theorem PDB_GetHandleFromModuleAddress_size_bound:
  assumes absent: "\<forall>ctx. pPdbContext s = Some ctx \<longrightarrow>
                     (\<forall>p \<in> snd ` set (pmPdbByHash ctx). vaModuleBase (objs s p) \<noteq> va)"
    and size: "PE_GetSize env pProcess va = 0 \<or> PE_GetSize env pProcess va > 0x04000000"
  shows "PDB_GetHandleFromModuleAddress x env s pProcess va = (0, s)"
proof (cases "pPdbContext s")
  case None
  then show ?thesis by (simp add: PDB_GetHandleFromModuleAddress_def)
next
  case (Some ctx)
  have "PDB_GetHandleFromModuleAddress_find s (pmPdbByHash ctx) va
          [0 ..< ObMap_Size (pmPdbByHash ctx)] = None"
  proof (rule PDB_GetHandleFromModuleAddress_find_None)
    fix i assume "i < length (pmPdbByHash ctx)"
    then have "snd (pmPdbByHash ctx ! i) \<in> snd ` set (pmPdbByHash ctx)" by simp
    with absent Some show "vaModuleBase (objs s (snd (pmPdbByHash ctx ! i))) \<noteq> va" by blast
  qed
  with Some size show ?thesis by (auto simp: PDB_GetHandleFromModuleAddress_def)
qed

theorem PDB_GetHandleFromModuleAddress_size_bound_witness:
  "PE_GetSize (ex_env \<lparr> PE_GetSize := (\<lambda>_ _. 0x04000001) \<rparr>) 4 0xfffff80001000000 > 0x04000000
   \<and> PDB_GetHandleFromModuleAddress ex_externals (ex_env \<lparr> PE_GetSize := (\<lambda>_ _. 0x04000001) \<rparr>)
        ex_state1 4 0xfffff80001000000 = (0, ex_state1)
   \<and> PDB_GetHandleFromModuleAddress ex_externals (ex_env \<lparr> PE_GetSize := (\<lambda>_ _. 0) \<rparr>)
        ex_state1 4 0xfffff80001000000 = (0, ex_state1)
   \<and> fst (PDB_GetHandleFromModuleAddress ex_externals ex_env ex_state1 4 0xfffff80001000000) \<noteq> 0"
proof -
  have a: "\<forall>ctx. pPdbContext ex_state1 = Some ctx \<longrightarrow>
             (\<forall>p \<in> snd ` set (pmPdbByHash ctx). vaModuleBase (objs ex_state1 p) \<noteq> 0xfffff80001000000)"
    by (simp add: ex_state1_eq)
  have b: "PE_GetSize (ex_env \<lparr> PE_GetSize := (\<lambda>_ _. 0x04000001) \<rparr>) 4 0xfffff80001000000 = 0
           \<or> PE_GetSize (ex_env \<lparr> PE_GetSize := (\<lambda>_ _. 0x04000001) \<rparr>) 4 0xfffff80001000000 > 0x04000000"
    by simp
  have c: "PE_GetSize (ex_env \<lparr> PE_GetSize := (\<lambda>_ _. 0) \<rparr>) 4 0xfffff80001000000 = 0
           \<or> PE_GetSize (ex_env \<lparr> PE_GetSize := (\<lambda>_ _. 0) \<rparr>) 4 0xfffff80001000000 > 0x04000000"
    by simp
  have h: "PDB_HashPdb ex_externals ''hal.pdb'' (replicate 16 2) 1 \<noteq> 0" by code_simp
  have d: "fst (PDB_GetHandleFromModuleAddress ex_externals ex_env ex_state1 4 0xfffff80001000000) \<noteq> 0"
    using h
    by (simp add: PDB_GetHandleFromModuleAddress_def ex_state1_eq ObMap_Size_def ObMap_GetByIndex_def
          ex_env_def PDB_AddModuleEntry_def Let_def split: if_splits)
  from PDB_GetHandleFromModuleAddress_size_bound [OF a b, of ex_externals] PDB_GetHandleFromModuleAddress_size_bound [OF a c, of ex_externals] d
  show ?thesis by simp
qed


subsection \<open>The 16-bit variants of the type queries\<close>

lemma ucast_small: "(v :: DWORD) \<le> 0xffff \<Longrightarrow> unat (ucast v :: WORD) = unat v"
proof -
  assume "v \<le> 0xffff"
  then have "unat v \<le> 0xffff" by (simp add: word_le_nat_alt)
  then show ?thesis by (simp add: unsigned_ucast_eq take_bit_nat_eq_self)
qed

lemma PDB_GetTypeSize_ok:
  "fst (PDB_GetTypeSize x env s h n d) = fst (PDB_GetTypeSize x env s h n d')"
  by (simp add: PDB_GetTypeSize_def split: option.splits prod.splits)

lemma PDB_GetTypeSize_val:
  "fst (PDB_GetTypeSize x env s h n d) \<Longrightarrow>
     fst (snd (PDB_GetTypeSize x env s h n d)) = fst (snd (PDB_GetTypeSize x env s h n d'))"
  by (simp add: PDB_GetTypeSize_def split: option.splits prod.splits if_splits)

lemma PDB_GetTypeSizeShort_ok:
  "fst (PDB_GetTypeSizeShort x env s h n pw) \<longleftrightarrow>
     fst (PDB_GetTypeSize x env s h n (indeterminate env)) \<and>
     fst (snd (PDB_GetTypeSize x env s h n (indeterminate env))) \<le> 0xffff"
  by (auto simp: PDB_GetTypeSizeShort_def split: prod.splits)

lemma PDB_GetTypeSizeShort_val:
  "fst (PDB_GetTypeSizeShort x env s h n pw) \<Longrightarrow>
     fst (snd (PDB_GetTypeSizeShort x env s h n pw)) =
       map_option (\<lambda>_. ucast (fst (snd (PDB_GetTypeSize x env s h n (indeterminate env))))) pw"
  by (auto simp: PDB_GetTypeSizeShort_def split: prod.splits if_splits)

lemma PDB_GetTypeChildOffset_children_cell:
  "PDB_GetTypeChildOffset_children env la c ids d =
     (if fst (PDB_GetTypeChildOffset_children env la c ids d')
      then PDB_GetTypeChildOffset_children env la c ids d' else (False, d))"
  by (induction ids) (auto split: option.splits)

lemma PDB_GetTypeChildOffset_loaded_cell:
  "PDB_GetTypeChildOffset_loaded env la n c d =
     (if fst (PDB_GetTypeChildOffset_loaded env la n c d')
      then PDB_GetTypeChildOffset_loaded env la n c d' else (False, d))"
  apply (simp only: PDB_GetTypeChildOffset_loaded_def Let_def)
  apply (subst PDB_GetTypeChildOffset_children_cell [of _ _ _ _ d d'])
  apply (simp split: option.splits prod.splits)
  done

lemma PDB_GetTypeChildOffset_cell:
  "PDB_GetTypeChildOffset x env s h n c d =
     (if fst (PDB_GetTypeChildOffset x env s h n c d')
      then PDB_GetTypeChildOffset x env s h n c d'
      else (False, d, snd (snd (PDB_GetTypeChildOffset x env s h n c d'))))"
  apply (simp only: PDB_GetTypeChildOffset_def)
  apply (subst PDB_GetTypeChildOffset_loaded_cell [of _ _ _ _ d d'])
  apply (simp split: option.splits prod.splits)
  done

lemma PDB_GetTypeChildOffset_ok:
  "fst (PDB_GetTypeChildOffset x env s h n c d) = fst (PDB_GetTypeChildOffset x env s h n c d')"
  by (subst PDB_GetTypeChildOffset_cell [of x env s h n c d d']) simp

lemma PDB_GetTypeChildOffset_val:
  "fst (PDB_GetTypeChildOffset x env s h n c d) \<Longrightarrow>
   fst (snd (PDB_GetTypeChildOffset x env s h n c d)) = fst (snd (PDB_GetTypeChildOffset x env s h n c d'))"
  by (subst (asm) PDB_GetTypeChildOffset_cell [of x env s h n c d d'],
      subst PDB_GetTypeChildOffset_cell [of x env s h n c d d']) (simp split: if_splits)

lemma PDB_GetTypeChildOffsetShort_ok:
  "fst (PDB_GetTypeChildOffsetShort x env s h n c pw) \<longleftrightarrow>
     fst (PDB_GetTypeChildOffset x env s h n c (indeterminate env)) \<and>
     fst (snd (PDB_GetTypeChildOffset x env s h n c (indeterminate env))) \<le> 0xffff"
  by (auto simp: PDB_GetTypeChildOffsetShort_def split: prod.splits)

lemma PDB_GetTypeChildOffsetShort_val:
  "fst (PDB_GetTypeChildOffsetShort x env s h n c pw) \<Longrightarrow>
     fst (snd (PDB_GetTypeChildOffsetShort x env s h n c pw)) =
       map_option (\<lambda>_. ucast (fst (snd (PDB_GetTypeChildOffset x env s h n c (indeterminate env))))) pw"
  by (auto simp: PDB_GetTypeChildOffsetShort_def split: prod.splits if_splits)


text \<open>
  Claim C9. \<open>PDB_GetTypeSizeShort\<close> succeeds exactly when \<open>PDB_GetTypeSize\<close> succeeds
  with a value of at most 0xffff, and \<open>PDB_GetTypeChildOffsetShort\<close> exactly when
  \<open>PDB_GetTypeChildOffset\<close> does (whatever the cell of the full-width query held before,
  \<open>d\<close>); on success the 16-bit cell holds a value equal, as a number, to the full-width
  result, so nothing is cut off.
\<close>

theorem PDB_Short_variants:
  "(fst (PDB_GetTypeSizeShort x env s h n pw) \<longleftrightarrow>
      fst (PDB_GetTypeSize x env s h n d) \<and> fst (snd (PDB_GetTypeSize x env s h n d)) \<le> 0xffff)
   \<and> (fst (PDB_GetTypeSizeShort x env s h n (Some w)) \<longrightarrow>
        (\<exists>w'. fst (snd (PDB_GetTypeSizeShort x env s h n (Some w))) = Some w' \<and>
              unat w' = unat (fst (snd (PDB_GetTypeSize x env s h n d)))))
   \<and> (fst (PDB_GetTypeChildOffsetShort x env s h n c pw) \<longleftrightarrow>
      fst (PDB_GetTypeChildOffset x env s h n c d) \<and>
      fst (snd (PDB_GetTypeChildOffset x env s h n c d)) \<le> 0xffff)
   \<and> (fst (PDB_GetTypeChildOffsetShort x env s h n c (Some w)) \<longrightarrow>
        (\<exists>w'. fst (snd (PDB_GetTypeChildOffsetShort x env s h n c (Some w))) = Some w' \<and>
              unat w' = unat (fst (snd (PDB_GetTypeChildOffset x env s h n c d)))))"
proof (intro conjI impI)
  let ?u = "indeterminate env"
  show a: "fst (PDB_GetTypeSizeShort x env s h n pw) \<longleftrightarrow>
      fst (PDB_GetTypeSize x env s h n d) \<and> fst (snd (PDB_GetTypeSize x env s h n d)) \<le> 0xffff"
    using PDB_GetTypeSize_ok [of x env s h n d ?u] PDB_GetTypeSize_val [of x env s h n d ?u]
    by (auto simp: PDB_GetTypeSizeShort_ok)
  show b: "fst (PDB_GetTypeChildOffsetShort x env s h n c pw) \<longleftrightarrow>
      fst (PDB_GetTypeChildOffset x env s h n c d) \<and>
      fst (snd (PDB_GetTypeChildOffset x env s h n c d)) \<le> 0xffff"
    using PDB_GetTypeChildOffset_ok [of x env s h n c d ?u]
      PDB_GetTypeChildOffset_val [of x env s h n c d ?u]
    by (auto simp: PDB_GetTypeChildOffsetShort_ok)
next
  let ?u = "indeterminate env"
  assume ok: "fst (PDB_GetTypeSizeShort x env s h n (Some w))"
  then have f: "fst (PDB_GetTypeSize x env s h n ?u)"
    and le: "fst (snd (PDB_GetTypeSize x env s h n ?u)) \<le> 0xffff"
    by (simp_all add: PDB_GetTypeSizeShort_ok)
  have eq: "fst (snd (PDB_GetTypeSize x env s h n ?u)) = fst (snd (PDB_GetTypeSize x env s h n d))"
    using f by (rule PDB_GetTypeSize_val)
  show "\<exists>w'. fst (snd (PDB_GetTypeSizeShort x env s h n (Some w))) = Some w' \<and>
              unat w' = unat (fst (snd (PDB_GetTypeSize x env s h n d)))"
    using PDB_GetTypeSizeShort_val [OF ok] ucast_small [OF le] eq by simp
next
  let ?u = "indeterminate env"
  assume ok: "fst (PDB_GetTypeChildOffsetShort x env s h n c (Some w))"
  then have f: "fst (PDB_GetTypeChildOffset x env s h n c ?u)"
    and le: "fst (snd (PDB_GetTypeChildOffset x env s h n c ?u)) \<le> 0xffff"
    by (simp_all add: PDB_GetTypeChildOffsetShort_ok)
  have eq: "fst (snd (PDB_GetTypeChildOffset x env s h n c ?u)) =
            fst (snd (PDB_GetTypeChildOffset x env s h n c d))"
    using f by (rule PDB_GetTypeChildOffset_val)
  show "\<exists>w'. fst (snd (PDB_GetTypeChildOffsetShort x env s h n c (Some w))) = Some w' \<and>
              unat w' = unat (fst (snd (PDB_GetTypeChildOffset x env s h n c d)))"
    using PDB_GetTypeChildOffsetShort_val [OF ok] ucast_small [OF le] eq by simp
qed

theorem PDB_Short_variants_witness:
  "PDB_GetTypeSize ex_externals ex_env ex_state2 ex_hPDB ''_LIST_ENTRY'' 0 = (True, 0x18, ex_state2)
   \<and> fst (PDB_GetTypeSizeShort ex_externals ex_env ex_state2 ex_hPDB ''_LIST_ENTRY'' (Some 0))
   \<and> fst (snd (PDB_GetTypeSizeShort ex_externals ex_env ex_state2 ex_hPDB ''_LIST_ENTRY'' (Some 0))) = Some 0x18
   \<and> PDB_GetTypeSize ex_externals ex_env_big ex_state2 ex_hPDB ''_BIG'' 0 = (True, 0x10000, ex_state2)
   \<and> \<not> fst (PDB_GetTypeSizeShort ex_externals ex_env_big ex_state2 ex_hPDB ''_BIG'' (Some 0))
   \<and> PDB_GetTypeChildOffset ex_externals ex_env ex_state2 ex_hPDB ''_LIST_ENTRY'' (wstr ''Blink'') 0 =
        (True, 8, ex_state2)
   \<and> fst (PDB_GetTypeChildOffsetShort ex_externals ex_env ex_state2 ex_hPDB ''_LIST_ENTRY'' (wstr ''Blink'') (Some 0))
   \<and> PDB_GetTypeChildOffset ex_externals ex_env_big ex_state2 ex_hPDB ''_BIG'' (wstr ''Blink'') 0 =
        (True, 0x10000, ex_state2)
   \<and> \<not> fst (PDB_GetTypeChildOffsetShort ex_externals ex_env_big ex_state2 ex_hPDB ''_BIG'' (wstr ''Blink'') (Some 0))"
proof -
  have a: "PDB_GetTypeSize ex_externals ex_env ex_state2 ex_hPDB ''_LIST_ENTRY'' 0 = (True, 0x18, ex_state2)"
    by (simp add: PDB_GetTypeSize_def ex_entry_of_handle ex_loaded) (simp add: ex_env_def)
  have b: "PDB_GetTypeSize ex_externals ex_env_big ex_state2 ex_hPDB ''_BIG'' 0 = (True, 0x10000, ex_state2)"
    by (simp add: PDB_GetTypeSize_def ex_entry_of_handle ex_loaded) (simp add: ex_env_def ex_env_big_def)
  have c: "PDB_GetTypeChildOffset ex_externals ex_env ex_state2 ex_hPDB ''_LIST_ENTRY'' (wstr ''Blink'') 0 =
        (True, 8, ex_state2)"
    by (simp add: PDB_GetTypeChildOffset_def ex_entry_of_handle ex_loaded)
       (simp add: ex_env_def PDB_GetTypeChildOffset_loaded_def PDB_GetTypeChildOffset_Callback_def wstr_def)
  have d: "PDB_GetTypeChildOffset ex_externals ex_env_big ex_state2 ex_hPDB ''_BIG'' (wstr ''Blink'') 0 =
        (True, 0x10000, ex_state2)"
    by (simp add: PDB_GetTypeChildOffset_def ex_entry_of_handle ex_loaded)
       (simp add: ex_env_def ex_env_big_def PDB_GetTypeChildOffset_loaded_def
          PDB_GetTypeChildOffset_Callback_def wstr_def)
  note t1 = PDB_Short_variants [of ex_externals ex_env ex_state2 ex_hPDB "''_LIST_ENTRY''" "Some 0" 0 0 "wstr ''Blink''"]
  note t2 = PDB_Short_variants [of ex_externals ex_env_big ex_state2 ex_hPDB "''_BIG''" "Some 0" 0 0 "wstr ''Blink''"]
  from t1 a have s1: "fst (PDB_GetTypeSizeShort ex_externals ex_env ex_state2 ex_hPDB ''_LIST_ENTRY'' (Some 0))"
    by simp
  with t1 a have s2: "fst (snd (PDB_GetTypeSizeShort ex_externals ex_env ex_state2 ex_hPDB ''_LIST_ENTRY'' (Some 0))) = Some 0x18"
    by (auto simp: word_unat_eq_iff)
  from t2 b have s3: "\<not> fst (PDB_GetTypeSizeShort ex_externals ex_env_big ex_state2 ex_hPDB ''_BIG'' (Some 0))"
    by simp
  from t1 c have s4: "fst (PDB_GetTypeChildOffsetShort ex_externals ex_env ex_state2 ex_hPDB ''_LIST_ENTRY'' (wstr ''Blink'') (Some 0))"
    by simp
  from t2 d have s5: "\<not> fst (PDB_GetTypeChildOffsetShort ex_externals ex_env_big ex_state2 ex_hPDB ''_BIG'' (wstr ''Blink'') (Some 0))"
    by simp
  from a b c d s1 s2 s3 s4 s5 show ?thesis by blast
qed


subsection \<open>Symbol offsets on a 32-bit target\<close>

lemma PDB_LoadEnsureEx_f32: "f32 (snd (PDB_LoadEnsureEx env s p)) = f32 s"
  by (simp add: PDB_LoadEnsureEx_def Let_def split: option.splits)

lemma enumerate_until_GetSymbolOffset:
  "enumerate_until PDB_GetSymbolOffset_Callback syms u =
     (case syms of [] \<Rightarrow> u | si # sis \<Rightarrow> snd (PDB_GetSymbolOffset_Callback si u))"
  by (cases syms) (simp_all add: PDB_GetSymbolOffset_Callback_def)

lemma ucast_offset_less:
  assumes "(q :: QWORD) < 0x10000000"
  shows "(ucast q :: DWORD) < 0x10000000"
proof -
  from assms have "unat q < 0x10000000" by (simp add: word_less_nat_alt)
  then have "unat (ucast q :: DWORD) = unat q"
    by (simp add: unsigned_ucast_eq take_bit_nat_eq_self)
  with \<open>unat q < 0x10000000\<close> show ?thesis by (simp add: word_less_nat_alt)
qed

lemma GetSymbolOffset_Callback_range:
  "snd (PDB_GetSymbolOffset_Callback si 0) < 0x10000000"
  by (simp add: PDB_GetSymbolOffset_Callback_def ucast_offset_less)

lemma GetSymbolOffset_Callback_zero:
  "si_Address si - si_ModBase si = 0 \<or> si_Address si - si_ModBase si \<ge> 0x10000000
   \<Longrightarrow> snd (PDB_GetSymbolOffset_Callback si 0) = 0"
  by (auto simp: PDB_GetSymbolOffset_Callback_def)

lemma PDB_GetSymbolOffset_32_range:
  assumes "f32 s" and ok: "fst (PDB_GetSymbolOffset x env s hPDB szSymbolName)"
  shows "fst (snd (PDB_GetSymbolOffset x env s hPDB szSymbolName)) \<noteq> 0 \<and>
         fst (snd (PDB_GetSymbolOffset x env s hPDB szSymbolName)) < 0x10000000"
proof (cases "PDB_entry_of_handle x s hPDB")
  case None
  with ok show ?thesis by (simp add: PDB_GetSymbolOffset_def)
next
  case (Some p')
  obtain b s' where l: "PDB_LoadEnsureEx env s p' = (b, s')" by (cases "PDB_LoadEnsureEx env s p'")
  with assms have f: "f32 s'" using PDB_LoadEnsureEx_f32 [of env s p'] by simp
  obtain ok' syms where y: "SymEnumSymbols env (qwLoadAddress (objs s' p')) szSymbolName = (ok', syms)"
    by (cases "SymEnumSymbols env (qwLoadAddress (objs s' p')) szSymbolName")
  show ?thesis
  proof (cases syms)
    case Nil
    with ok Some l f y show ?thesis
      by (simp add: PDB_GetSymbolOffset_def split: if_splits)
  next
    case (Cons si' sis')
    with ok Some l f y GetSymbolOffset_Callback_range [of si'] show ?thesis
      by (simp add: PDB_GetSymbolOffset_def enumerate_until_GetSymbolOffset Let_def split: if_splits)
  qed
qed

lemma PDB_GetSymbolOffset_32_fail:
  assumes "f32 s"
    and e: "PDB_entry_of_handle x s hPDB = Some p"
    and l: "PDB_LoadEnsureEx env s p = (True, s1)"
    and y: "SymEnumSymbols env (qwLoadAddress (objs s1 p)) szSymbolName = (ok, si # sis)"
    and z: "si_Address si - si_ModBase si = 0 \<or> si_Address si - si_ModBase si \<ge> 0x10000000"
  shows "PDB_GetSymbolOffset x env s hPDB szSymbolName = (False, 0, s1)"
proof -
  from l assms(1) have "f32 s1" using PDB_LoadEnsureEx_f32 [of env s p] by simp
  with e l y GetSymbolOffset_Callback_zero [OF z] show ?thesis
    by (simp add: PDB_GetSymbolOffset_def enumerate_until_GetSymbolOffset)
qed


text \<open>
  Claim C10. On a 32-bit target (\<open>f32\<close>), a successful \<open>PDB_GetSymbolOffset\<close> delivers an
  offset that is nonzero and below 0x10000000; when the first symbol that the enumeration
  hands to the callback lies at offset zero or at 0x10000000 or more from the module base,
  the call fails with offset zero although the enumeration reported success or not
  (\<open>ok\<close> is arbitrary); and the callback stores an offset only when it is below
  0x10000000.
\<close>

theorem PDB_GetSymbolOffset_32:
  assumes "f32 s"
  shows "(fst (PDB_GetSymbolOffset x env s hPDB szSymbolName) \<longrightarrow>
            fst (snd (PDB_GetSymbolOffset x env s hPDB szSymbolName)) \<noteq> 0 \<and>
            fst (snd (PDB_GetSymbolOffset x env s hPDB szSymbolName)) < 0x10000000)
       \<and> (PDB_entry_of_handle x s hPDB = Some p \<longrightarrow>
          PDB_LoadEnsureEx env s p = (True, s1) \<longrightarrow>
          SymEnumSymbols env (qwLoadAddress (objs s1 p)) szSymbolName = (ok, si # sis) \<longrightarrow>
          (si_Address si - si_ModBase si = 0 \<or> si_Address si - si_ModBase si \<ge> 0x10000000) \<longrightarrow>
          PDB_GetSymbolOffset x env s hPDB szSymbolName = (False, 0, s1))
       \<and> snd (PDB_GetSymbolOffset_Callback si u) =
           (if si_Address si - si_ModBase si < 0x10000000
            then ucast (si_Address si - si_ModBase si) else u)"
  using PDB_GetSymbolOffset_32_range [OF assms, of x env hPDB szSymbolName]
    PDB_GetSymbolOffset_32_fail [OF assms, of x hPDB p env s1 szSymbolName ok si sis]
  by (simp add: PDB_GetSymbolOffset_Callback_def)

theorem PDB_GetSymbolOffset_32_witness:
  "f32 (ex_state2 \<lparr> f32 := True \<rparr>)
   \<and> PDB_GetSymbolOffset ex_externals (ex_env_sym 0x10000000) (ex_state2 \<lparr> f32 := True \<rparr>) ex_hPDB ''KiBig''
       = (False, 0, ex_state2 \<lparr> f32 := True \<rparr>)
   \<and> PDB_GetSymbolOffset ex_externals (ex_env_sym 0) (ex_state2 \<lparr> f32 := True \<rparr>) ex_hPDB ''KiZero''
       = (False, 0, ex_state2 \<lparr> f32 := True \<rparr>)
   \<and> PDB_GetSymbolOffset ex_externals (ex_env_sym 0x1234) (ex_state2 \<lparr> f32 := True \<rparr>) ex_hPDB ''KiOk''
       = (True, 0x1234, ex_state2 \<lparr> f32 := True \<rparr>)"
proof -
  let ?s = "ex_state2 \<lparr> f32 := True \<rparr>"
  have f: "f32 ?s" by simp
  have e: "PDB_entry_of_handle ex_externals ?s ex_hPDB = Some 0"
    by (simp add: PDB_entry_of_handle_def ex_state2_eq ex_hPDB_def ex_externals_def ObMap_GetByKey_def)
  have l: "\<And>env. PDB_LoadEnsureEx env ?s 0 = (True, ?s)"
    by (simp add: PDB_LoadEnsureEx_def ex_state2_eq)
  have y1: "SymEnumSymbols (ex_env_sym 0x10000000) (qwLoadAddress (objs ?s 0)) ''KiBig'' =
             (True, \<lparr> si_Index = 1, si_Size = 0, si_ModBase = 0x0000511f00000000,
                      si_Address = 0x0000511f10000000 \<rparr> # [])"
    by (simp add: ex_state2_la ex_env_sym_def)
  have y2: "SymEnumSymbols (ex_env_sym 0) (qwLoadAddress (objs ?s 0)) ''KiZero'' =
             (True, \<lparr> si_Index = 1, si_Size = 0, si_ModBase = 0x0000511f00000000,
                      si_Address = 0x0000511f00000000 \<rparr> # [])"
    by (simp add: ex_state2_la ex_env_sym_def)
  note t1 = PDB_GetSymbolOffset_32 [OF f, of ex_externals "ex_env_sym 0x10000000" ex_hPDB "''KiBig''" 0 ?s True
      "\<lparr> si_Index = 1, si_Size = 0, si_ModBase = 0x0000511f00000000, si_Address = 0x0000511f10000000 \<rparr>" "[]" 0]
  note t2 = PDB_GetSymbolOffset_32 [OF f, of ex_externals "ex_env_sym 0" ex_hPDB "''KiZero''" 0 ?s True
      "\<lparr> si_Index = 1, si_Size = 0, si_ModBase = 0x0000511f00000000, si_Address = 0x0000511f00000000 \<rparr>" "[]" 0]
  from t1 e l y1 have r1: "PDB_GetSymbolOffset ex_externals (ex_env_sym 0x10000000) ?s ex_hPDB ''KiBig'' = (False, 0, ?s)"
    by simp
  from t2 e l y2 have r2: "PDB_GetSymbolOffset ex_externals (ex_env_sym 0) ?s ex_hPDB ''KiZero'' = (False, 0, ?s)"
    by simp
  have r3: "PDB_GetSymbolOffset ex_externals (ex_env_sym 0x1234) ?s ex_hPDB ''KiOk'' = (True, 0x1234, ?s)"
    by (simp add: PDB_GetSymbolOffset_def e l)
       (simp add: ex_state2_la ex_env_sym_def ex_env_def PDB_GetSymbolOffset_Callback_def)
  from f r1 r2 r3 show ?thesis by blast
qed


subsection \<open>The load state of an entry\<close>

lemma PDB_LoadEnsureEx_other:
  "q \<noteq> p \<Longrightarrow> objs (snd (PDB_LoadEnsureEx env s q)) p = objs s p"
  by (simp add: PDB_LoadEnsureEx_def Let_def split: option.splits)

lemma PDB_LoadEnsureEx_failed:
  "fLoadFailed (objs s p) \<Longrightarrow> PDB_LoadEnsureEx env s p = (False, s)"
  by (simp add: PDB_LoadEnsureEx_def split: option.splits)

lemma PDB_LoadEnsureEx_loaded:
  "qwLoadAddress (objs s p) \<noteq> 0 \<Longrightarrow> snd (PDB_LoadEnsureEx env s p) = s"
  by (simp add: PDB_LoadEnsureEx_def Let_def split: option.splits)

lemma PDB_LoadEnsureEx_final:
  assumes "fLoadFailed (objs s p) \<or> qwLoadAddress (objs s p) \<noteq> 0"
  shows "objs (snd (PDB_LoadEnsureEx env s q)) p = objs s p"
proof (cases "q = p")
  case True
  with assms show ?thesis
    using PDB_LoadEnsureEx_failed [of s p env] PDB_LoadEnsureEx_loaded [of s p env] by auto
next
  case False
  then show ?thesis by (rule PDB_LoadEnsureEx_other)
qed

lemma PDB_LoadEnsure_cases:
  "snd (PDB_LoadEnsure x env s h) = s \<or>
   (\<exists>q. snd (PDB_LoadEnsure x env s h) = snd (PDB_LoadEnsureEx env s q))"
  by (auto simp: PDB_LoadEnsure_def Let_def split: option.splits)

lemma run_load_call_cases:
  "snd (run_load_call x c s) = s \<or>
   (\<exists>q. snd (run_load_call x c s) = snd (PDB_LoadEnsureEx (load_call_env c) s q))"
  using PDB_LoadEnsure_cases [of x _ s] by (cases c) auto

lemma run_load_call_final:
  assumes "fLoadFailed (objs s p) \<or> qwLoadAddress (objs s p) \<noteq> 0"
  shows "objs (snd (run_load_call x c s)) p = objs s p"
  using run_load_call_cases [of x c s] PDB_LoadEnsureEx_final [OF assms] by auto

lemma run_load_calls_final:
  "fLoadFailed (objs s p) \<or> qwLoadAddress (objs s p) \<noteq> 0
   \<Longrightarrow> objs (run_load_calls x cs s) p = objs s p"
proof (induction cs arbitrary: s)
  case Nil
  show ?case by simp
next
  case (Cons c cs)
  have e: "objs (snd (run_load_call x c s)) p = objs s p"
    using Cons.prems by (rule run_load_call_final)
  with Cons.prems have "fLoadFailed (objs (snd (run_load_call x c s)) p) \<or>
                        qwLoadAddress (objs (snd (run_load_call x c s)) p) \<noteq> 0" by simp
  from Cons.IH [OF this] e show ?case by simp
qed

lemma PDB_LoadEnsureEx_exclusive:
  assumes "\<forall>path. StrDup_ok env path"
    and "\<not> (fLoadFailed (objs s p) \<and> qwLoadAddress (objs s p) \<noteq> 0)"
  shows "\<not> (fLoadFailed (objs (snd (PDB_LoadEnsureEx env s q)) p) \<and>
            qwLoadAddress (objs (snd (PDB_LoadEnsureEx env s q)) p) \<noteq> 0)"
proof (cases "q = p")
  case False
  with assms(2) show ?thesis by (simp add: PDB_LoadEnsureEx_other)
next
  case True
  with assms show ?thesis
    by (auto simp: PDB_LoadEnsureEx_def Let_def Util_StrDupA_def split: option.splits if_splits)
qed

lemma run_load_call_exclusive:
  assumes "\<forall>path. StrDup_ok (load_call_env c) path"
    and "\<not> (fLoadFailed (objs s p) \<and> qwLoadAddress (objs s p) \<noteq> 0)"
  shows "\<not> (fLoadFailed (objs (snd (run_load_call x c s)) p) \<and>
            qwLoadAddress (objs (snd (run_load_call x c s)) p) \<noteq> 0)"
  using run_load_call_cases [of x c s] PDB_LoadEnsureEx_exclusive [OF assms] assms(2) by auto

lemma run_load_calls_exclusive:
  "\<forall>c \<in> set cs. \<forall>path. StrDup_ok (load_call_env c) path
   \<Longrightarrow> \<not> (fLoadFailed (objs s p) \<and> qwLoadAddress (objs s p) \<noteq> 0)
   \<Longrightarrow> \<not> (fLoadFailed (objs (run_load_calls x cs s) p) \<and>
          qwLoadAddress (objs (run_load_calls x cs s) p) \<noteq> 0)"
proof (induction cs arbitrary: s)
  case Nil
  then show ?case by simp
next
  case (Cons c cs)
  from Cons.prems have "\<forall>path. StrDup_ok (load_call_env c) path" by simp
  from run_load_call_exclusive [OF this Cons.prems(2), of x]
  have "\<not> (fLoadFailed (objs (snd (run_load_call x c s)) p) \<and>
           qwLoadAddress (objs (snd (run_load_call x c s)) p) \<noteq> 0)" .
  moreover from Cons.prems have "\<forall>c \<in> set cs. \<forall>path. StrDup_ok (load_call_env c) path" by simp
  ultimately show ?case using Cons.IH by simp
qed

lemma PDB_LoadEnsureEx_False:
  "pPdbContext s \<noteq> None \<Longrightarrow> PDB_LoadEnsureEx env s p = (False, s')
   \<Longrightarrow> fLoadFailed (objs s' p)"
  by (auto simp: PDB_LoadEnsureEx_def Let_def split: option.splits if_splits)


text \<open>
  Claim C1, as the code has it. For every entry \<open>p\<close> and every later history \<open>cs\<close> of
  load calls:
  \<^item> once \<open>fLoadFailed\<close> is set or \<open>qwLoadAddress\<close> is nonzero, both fields keep
    their values;
  \<^item> if no duplication of a path string fails during \<open>cs\<close>, an entry that does not
    have \<open>fLoadFailed\<close> together with a nonzero \<open>qwLoadAddress\<close> never gets both;
  \<^item> a call of \<open>PDB_LoadEnsureEx\<close> that returns FALSE (with the subsystem initialized)
    leaves \<open>fLoadFailed\<close> set, and every later call on the entry returns FALSE and
    leaves the state, with its log of calls to the symbol library, as it was.
\<close>

theorem PDB_LoadEnsure_load_state_final:
  "(fLoadFailed (objs s p) \<or> qwLoadAddress (objs s p) \<noteq> 0 \<longrightarrow>
      fLoadFailed (objs (run_load_calls x cs s) p) = fLoadFailed (objs s p) \<and>
      qwLoadAddress (objs (run_load_calls x cs s) p) = qwLoadAddress (objs s p))
   \<and> ((\<forall>c \<in> set cs. \<forall>path. StrDup_ok (load_call_env c) path) \<longrightarrow>
       \<not> (fLoadFailed (objs s p) \<and> qwLoadAddress (objs s p) \<noteq> 0) \<longrightarrow>
       \<not> (fLoadFailed (objs (run_load_calls x cs s) p) \<and>
          qwLoadAddress (objs (run_load_calls x cs s) p) \<noteq> 0))
   \<and> (pPdbContext s \<noteq> None \<longrightarrow> PDB_LoadEnsureEx env s p = (False, s') \<longrightarrow>
       fLoadFailed (objs s' p) \<and>
       PDB_LoadEnsureEx env' (run_load_calls x cs s') p = (False, run_load_calls x cs s'))"
proof (intro conjI impI)
  assume a: "fLoadFailed (objs s p) \<or> qwLoadAddress (objs s p) \<noteq> 0"
  from run_load_calls_final [OF a, of x cs]
  show "fLoadFailed (objs (run_load_calls x cs s) p) = fLoadFailed (objs s p)"
    and "qwLoadAddress (objs (run_load_calls x cs s) p) = qwLoadAddress (objs s p)"
    by simp_all
next
  assume "\<forall>c \<in> set cs. \<forall>path. StrDup_ok (load_call_env c) path"
    and "\<not> (fLoadFailed (objs s p) \<and> qwLoadAddress (objs s p) \<noteq> 0)"
  then show "\<not> (fLoadFailed (objs (run_load_calls x cs s) p) \<and>
          qwLoadAddress (objs (run_load_calls x cs s) p) \<noteq> 0)"
    by (rule run_load_calls_exclusive)
next
  assume c: "pPdbContext s \<noteq> None" and f: "PDB_LoadEnsureEx env s p = (False, s')"
  from PDB_LoadEnsureEx_False [OF c f] show g: "fLoadFailed (objs s' p)" .
  then have "fLoadFailed (objs (run_load_calls x cs s') p)"
    using run_load_calls_final [of s' p x cs] by simp
  then show "PDB_LoadEnsureEx env' (run_load_calls x cs s') p = (False, run_load_calls x cs s')"
    by (rule PDB_LoadEnsureEx_failed)
qed


text \<open>
  Claim C1 as stated also asks that \<open>fLoadFailed\<close> and a nonzero \<open>qwLoadAddress\<close>
  exclude each other. They do not when \<open>SymLoadModuleEx\<close> delivers an address and the
  duplication of the path fails: line 245 has stored the address when line 250 sets the flag.
\<close>

theorem PDB_LoadEnsureEx_failed_and_loaded:
  "fLoadFailed (objs (snd (PDB_LoadEnsureEx ex_env_nodup ex_state1 0)) 0)
   \<and> qwLoadAddress (objs (snd (PDB_LoadEnsureEx ex_env_nodup ex_state1 0)) 0) = 0x0000511f00000000"
  by (simp add: ex_state1_eq PDB_LoadEnsureEx_def ex_env_nodup_def ex_env_def Util_StrDupA_def)


theorem PDB_LoadEnsure_load_state_final_witness:
  "fLoadFailed (objs ex_state_failed 0)
   \<and> fLoadFailed (objs (run_load_calls ex_externals
         [Call_PDB_LoadEnsureEx ex_env 0, Call_PDB_LoadEnsure ex_env ex_hPDB] ex_state_failed) 0)
   \<and> qwLoadAddress (objs (run_load_calls ex_externals
         [Call_PDB_LoadEnsureEx ex_env 0, Call_PDB_LoadEnsure ex_env ex_hPDB] ex_state_failed) 0) = 0
   \<and> \<not> fLoadFailed (objs ex_state1 0)
   \<and> run_load_calls ex_externals [Call_PDB_LoadEnsureEx ex_env 0] ex_state1 = ex_state2
   \<and> \<not> (fLoadFailed (objs ex_state2 0) \<and> qwLoadAddress (objs ex_state2 0) \<noteq> 0)
   \<and> PDB_LoadEnsureEx ex_env_nofile ex_state1 0 = (False, ex_state_failed)
   \<and> PDB_LoadEnsureEx ex_env ex_state_failed 0 = (False, ex_state_failed)"
proof -
  let ?cs = "[Call_PDB_LoadEnsureEx ex_env 0, Call_PDB_LoadEnsure ex_env ex_hPDB]"
  have f: "fLoadFailed (objs ex_state_failed 0)" by (simp add: ex_state_failed_eq)
  have q: "qwLoadAddress (objs ex_state_failed 0) = 0" by (simp add: ex_state_failed_eq)
  note t1 = PDB_LoadEnsure_load_state_final [of ex_state_failed 0 ex_externals ?cs ex_env ex_state_failed ex_env]
  from t1 f q have a: "fLoadFailed (objs (run_load_calls ex_externals ?cs ex_state_failed) 0)"
    and b: "qwLoadAddress (objs (run_load_calls ex_externals ?cs ex_state_failed) 0) = 0"
    by simp_all
  have n: "\<not> fLoadFailed (objs ex_state1 0)" by (simp add: ex_state1_eq)
  have r: "run_load_calls ex_externals [Call_PDB_LoadEnsureEx ex_env 0] ex_state1 = ex_state2"
    by (simp add: ex_state2_def)
  have d: "\<forall>c \<in> set [Call_PDB_LoadEnsureEx ex_env 0]. \<forall>path. StrDup_ok (load_call_env c) path"
    by (simp add: ex_env_def)
  have c: "pPdbContext ex_state1 \<noteq> None" by (simp add: ex_state1_eq)
  have l: "PDB_LoadEnsureEx ex_env_nofile ex_state1 0 = (False, ex_state_failed)"
    by (simp add: ex_state_failed_eq)
       (simp add: ex_state1_eq PDB_LoadEnsureEx_def ex_env_nofile_def ex_env_def)
  note t2 = PDB_LoadEnsure_load_state_final [of ex_state1 0 ex_externals "[Call_PDB_LoadEnsureEx ex_env 0]" ex_env_nofile
                  ex_state_failed ex_env]
  from t2 d n r have e: "\<not> (fLoadFailed (objs ex_state2 0) \<and> qwLoadAddress (objs ex_state2 0) \<noteq> 0)"
    by simp
  note t3 = PDB_LoadEnsure_load_state_final [of ex_state1 0 ex_externals "[]" ex_env_nofile ex_state_failed ex_env]
  from t3 c l have g: "PDB_LoadEnsureEx ex_env ex_state_failed 0 = (False, ex_state_failed)"
    by simp
  from f a b n r e l g show ?thesis by blast
qed


subsection \<open>Registration\<close>

lemma ObMap_Push_ExistsKey: "ObMap_ExistsKey (ObMap_Push pm k v) k"
  by (auto simp: ObMap_Push_def ObMap_ExistsKey_def map_add_def)





lemma le_step: "(ucast (ucast (v :: QWORD) :: BYTE) :: QWORD) OR push_bit 8 (drop_bit 8 v) = v"
proof (rule bit_word_eqI)
  fix n assume "n < LENGTH(64)"
  then show "bit ((ucast (ucast v :: BYTE) :: QWORD) OR push_bit 8 (drop_bit 8 v)) n = bit v n"
    by (cases "n < 8") (auto simp: bit_simps)
qed

lemma le_bytes_of: "drop_bit (8 * n) v = 0 \<Longrightarrow> le_bytes (bytes_of n v) = v"
proof (induction n arbitrary: v)
  case 0
  then show ?case by simp
next
  case (Suc n)
  have "drop_bit (8 * n) (drop_bit 8 v) = 0" using Suc.prems by (simp add: drop_bit_drop_bit add.commute)
  from Suc.IH [OF this] show ?case by (simp add: le_step)
qed


lemma length_bytes_of: "length (bytes_of n v) = n"
  by (induction n arbitrary: v) simp_all

lemma PDB_HashPdb_zero_exists:
  assumes "length lo = 8"
  shows "\<exists>hi. length hi = 8 \<and> PDB_HashPdb x szPdbName (lo @ hi) dwPdbAge = 0"
proof -
  let ?q = "Util_HashStringA x szPdbName"
  let ?q1 = "ucast dwPdbAge + (drop_bit 13 ?q OR push_bit 51 ?q)"
  let ?q2 = "le_bytes lo + (drop_bit 13 ?q1 OR push_bit 51 ?q1)"
  let ?v = "- (drop_bit 13 ?q2 OR push_bit 51 ?q2)"
  have "drop_bit (8 * 8) ?v = 0" by (simp add: drop_bit_eq_zero_iff_not_bit_last)
  then have "le_bytes (bytes_of 8 ?v) = ?v" by (rule le_bytes_of)
  with assms have "PDB_HashPdb x szPdbName (lo @ bytes_of 8 ?v) dwPdbAge = 0"
    by (simp add: PDB_HashPdb_def PQWORD_at_def Let_def length_bytes_of del: bytes_of.simps)
  then show ?thesis using length_bytes_of [of 8 ?v] by blast
qed




lemma ObMap_GetByKey_Push_new:
  "\<not> ObMap_ExistsKey pm k \<Longrightarrow> ObMap_GetByKey (ObMap_Push pm k v) k = Some v"
  by (auto simp: ObMap_Push_def ObMap_ExistsKey_def ObMap_GetByKey_def map_add_def)

lemma ObMap_GetByKey_Push_old:
  "ObMap_GetByKey pm k = Some v \<Longrightarrow> ObMap_GetByKey (ObMap_Push pm k' v') k = Some v"
  by (auto simp: ObMap_Push_def ObMap_ExistsKey_def ObMap_GetByKey_def map_add_def)

lemma ObMap_Push_values:
  "snd ` set (ObMap_Push pm k v) \<subseteq> insert v (snd ` set pm)"
  by (auto simp: ObMap_Push_def)

lemma ObMap_Push_present:
  "ObMap_ExistsKey pm k \<Longrightarrow> ObMap_Push pm k v = pm"
  by (simp add: ObMap_Push_def)

text \<open>
  Claim C4, as the code has it. In an initialized and enabled subsystem, let two triples
  with distinct fingerprints, both new to the by-fingerprint index, be registered under the
  same module name \<open>m\<close>, a name other than "nt" that the module-name index does not hold
  yet (and let the index hold allocated objects only). Then the lookup of \<open>m\<close> by name
  returns the first handle, before and after the second registration, and the second entry
  is found in the by-fingerprint index under its own fingerprint, with its own module base,
  while no key of the module-name index leads to it.
\<close>

theorem PDB_AddModuleEntry_name_collision:
  assumes ctx: "pPdbContext s = Some ctx" and enabled: "\<not> fDisabled ctx"
    and alloc: "Ob_Alloc_ok env1" "Ob_Alloc_ok env2"
    and new1: "\<not> ObMap_ExistsKey (pmPdbByHash ctx) (PDB_HashPdb x n1 g1 a1)"
    and new2: "\<not> ObMap_ExistsKey (pmPdbByHash ctx) (PDB_HashPdb x n2 g2 a2)"
    and distinct: "PDB_HashPdb x n1 g1 a1 \<noteq> PDB_HashPdb x n2 g2 a2"
    and first: "\<not> ObMap_ExistsKey (pmPdbByModule ctx) (ucast (PDB_HashModuleName x m))"
    and name: "m \<noteq> ''nt''"
    and allocated: "\<forall>p \<in> snd ` set (pmPdbByModule ctx). p < ob_next s"
  shows "let r1 = PDB_AddModuleEntry x env1 s va1 cb1 m n1 g1 a1;
             r2 = PDB_AddModuleEntry x env2 (snd r1) va2 cb2 m n2 g2 a2
         in fst r1 = PDB_HashPdb x n1 g1 a1 \<and> fst r2 = PDB_HashPdb x n2 g2 a2 \<and>
            PDB_GetHandleFromModuleName x (snd r1) (Some m) = fst r1 \<and>
            PDB_GetHandleFromModuleName x (snd r2) (Some m) = fst r1 \<and>
            (\<exists>c2 p2. pPdbContext (snd r2) = Some c2 \<and>
                ObMap_GetByKey (pmPdbByHash c2) (fst r2) = Some p2 \<and>
                qwHash (objs (snd r2) p2) = fst r2 \<and>
                vaModuleBase (objs (snd r2) p2) = va2 \<and>
                p2 \<notin> snd ` set (pmPdbByModule c2))"
proof -
  let ?h1 = "PDB_HashPdb x n1 g1 a1" and ?h2 = "PDB_HashPdb x n2 g2 a2"
  let ?k = "ucast (PDB_HashModuleName x m) :: QWORD"
  let ?p1 = "ob_next s" and ?p2 = "Suc (ob_next s)"
  let ?e1 = "PDB_ENTRY_zero \<lparr> dwAge := a1, qwHash := ?h1, pbGUID := take 16 g1,
                 szName := Util_StrDupA env1 n1, szModuleName := Util_StrDupA env1 m,
                 vaModuleBase := va1, cbModuleSize := cb1 \<rparr>"
  let ?e2 = "PDB_ENTRY_zero \<lparr> dwAge := a2, qwHash := ?h2, pbGUID := take 16 g2,
                 szName := Util_StrDupA env2 n2, szModuleName := Util_StrDupA env2 m,
                 vaModuleBase := va2, cbModuleSize := cb2 \<rparr>"
  let ?c1 = "ctx \<lparr> pmPdbByHash := ObMap_Push (pmPdbByHash ctx) ?h1 ?p1,
                   pmPdbByModule := ObMap_Push (pmPdbByModule ctx) ?k ?p1 \<rparr>"
  let ?s1 = "s \<lparr> pPdbContext := Some ?c1, objs := (objs s)(?p1 := ?e1), ob_next := ?p2 \<rparr>"
  let ?c2 = "?c1 \<lparr> pmPdbByHash := ObMap_Push (pmPdbByHash ?c1) ?h2 ?p2,
                   pmPdbByModule := ObMap_Push (pmPdbByModule ?c1) ?k ?p2 \<rparr>"
  let ?s2 = "?s1 \<lparr> pPdbContext := Some ?c2, objs := (objs ?s1)(?p2 := ?e2), ob_next := Suc ?p2 \<rparr>"
  have r1: "PDB_AddModuleEntry x env1 s va1 cb1 m n1 g1 a1 = (?h1, ?s1)"
    using ctx alloc(1) new1 by (simp add: PDB_AddModuleEntry_def Let_def)
  have new2': "\<not> ObMap_ExistsKey (pmPdbByHash ?c1) ?h2"
    using new2 distinct by (auto simp: ObMap_Push_def ObMap_ExistsKey_def map_add_def)
  have r2: "PDB_AddModuleEntry x env2 ?s1 va2 cb2 m n2 g2 a2 = (?h2, ?s2)"
    using alloc(2) new2' by (simp add: PDB_AddModuleEntry_def Let_def)
  have k1: "ObMap_GetByKey (pmPdbByModule ?c1) ?k = Some ?p1"
    using first by (simp add: ObMap_GetByKey_Push_new)
  then have k2: "ObMap_GetByKey (pmPdbByModule ?c2) ?k = Some ?p1"
    by (simp add: ObMap_GetByKey_Push_old)
  have g1: "PDB_GetHandleFromModuleName x ?s1 (Some m) = ?h1"
    using enabled name k1 by (simp add: PDB_GetHandleFromModuleName_def PDB_ENTRY_zero_def)
  have g2: "PDB_GetHandleFromModuleName x ?s2 (Some m) = ?h1"
    using enabled name k2 by (simp add: PDB_GetHandleFromModuleName_def PDB_ENTRY_zero_def)
  have b2: "ObMap_GetByKey (pmPdbByHash ?c2) ?h2 = Some ?p2"
    using new2' by (simp add: ObMap_GetByKey_Push_new)
  have "ObMap_ExistsKey (pmPdbByModule ?c1) ?k"
    by (simp add: ObMap_Push_ExistsKey)
  then have "pmPdbByModule ?c2 = ObMap_Push (pmPdbByModule ctx) ?k ?p1"
    by (simp add: ObMap_Push_present)
  then have "snd ` set (pmPdbByModule ?c2) \<subseteq> insert ?p1 (snd ` set (pmPdbByModule ctx))"
    using ObMap_Push_values [of "pmPdbByModule ctx" ?k ?p1] by simp
  with allocated have v: "?p2 \<notin> snd ` set (pmPdbByModule ?c2)" by fastforce
  have "\<exists>c2 p2. pPdbContext ?s2 = Some c2 \<and>
                ObMap_GetByKey (pmPdbByHash c2) ?h2 = Some p2 \<and>
                qwHash (objs ?s2 p2) = ?h2 \<and>
                vaModuleBase (objs ?s2 p2) = va2 \<and>
                p2 \<notin> snd ` set (pmPdbByModule c2)"
    using b2 v by (intro exI [of _ ?c2] exI [of _ ?p2]) simp
  with r1 r2 g1 g2 show ?thesis by (simp add: Let_def)
qed


lemma ex_hash_hal: "PDB_HashPdb ex_externals ''hal.pdb'' (replicate 16 2) 1 = 1353929630001369674"
  by code_simp
lemma ex_hash_halacpi: "PDB_HashPdb ex_externals ''halacpi.pdb'' (replicate 16 3) 1 = 6677482053537395563"
  by code_simp
lemma ex_hash_name_hal: "PDB_HashModuleName ex_externals ''hal'' = 50862700"
  by code_simp
lemma ex_hash_name_nt: "PDB_HashModuleName ex_externals ''nt'' = 57671796"
  by code_simp

text \<open>
  Claim C4 as stated covers every module name. For the name "nt" it fails: the entries
  are indexed under the hash of "nt", and the lookup of "nt" searches under the hash of
  "ntoskrnl".
\<close>

theorem PDB_AddModuleEntry_name_collision_nt:
  "fst (PDB_AddModuleEntry ex_externals ex_env ex_state0 0xfffff80000800000 0x100000
          ''nt'' ''hal.pdb'' (replicate 16 2) 1) = 1353929630001369674
   \<and> fst (PDB_AddModuleEntry ex_externals ex_env
          (snd (PDB_AddModuleEntry ex_externals ex_env ex_state0 0xfffff80000800000 0x100000
                  ''nt'' ''hal.pdb'' (replicate 16 2) 1))
          0xfffff80000900000 0x100000 ''nt'' ''halacpi.pdb'' (replicate 16 3) 1) = 6677482053537395563
   \<and> PDB_GetHandleFromModuleName ex_externals
        (snd (PDB_AddModuleEntry ex_externals ex_env
          (snd (PDB_AddModuleEntry ex_externals ex_env ex_state0 0xfffff80000800000 0x100000
                  ''nt'' ''hal.pdb'' (replicate 16 2) 1))
          0xfffff80000900000 0x100000 ''nt'' ''halacpi.pdb'' (replicate 16 3) 1))
        (Some ''nt'') = 0"
  by (simp add: PDB_AddModuleEntry_def ex_state0_def ex_hash_hal ex_hash_halacpi ex_hash_name_nt
        ex_hash_ntoskrnl ObMap_ExistsKey_def ObMap_Push_def ex_env_def Util_StrDupA_def
        PDB_GetHandleFromModuleName_def ObMap_GetByKey_def)

theorem PDB_AddModuleEntry_name_collision_witness:
  "PDB_AddModuleEntry ex_externals ex_env ex_state1 0xfffff80000800000 0x100000
          ''hal'' ''hal.pdb'' (replicate 16 2) 1
     = (1353929630001369674,
        ex_state1 \<lparr> pPdbContext := Some \<lparr> fDisabled = False,
             pmPdbByHash = [(9990424309917835612, 0), (1353929630001369674, 1)],
             pmPdbByModule = [(1531402980, 0), (50862700, 1)],
             qwLoadAddressNext = 0x0000511f00000000 \<rparr>,
          objs := (objs ex_state1)(1 := \<lparr> qwHash = 1353929630001369674, vaModuleBase = 0xfffff80000800000,
             szModuleName = Some ''hal'', szName = Some ''hal.pdb'', pbGUID = replicate 16 2, dwAge = 1,
             cbModuleSize = 0x100000, fLoadFailed = False, szPath = None, qwLoadAddress = 0 \<rparr>),
          ob_next := 2 \<rparr>)
   \<and> PDB_GetHandleFromModuleName ex_externals
        (snd (PDB_AddModuleEntry ex_externals ex_env
          (snd (PDB_AddModuleEntry ex_externals ex_env ex_state1 0xfffff80000800000 0x100000
                  ''hal'' ''hal.pdb'' (replicate 16 2) 1))
          0xfffff80000900000 0x100000 ''hal'' ''halacpi.pdb'' (replicate 16 3) 1))
        (Some ''hal'') = 1353929630001369674"
proof -
  let ?ctx = "\<lparr> fDisabled = False, pmPdbByHash = [(9990424309917835612, 0)],
                 pmPdbByModule = [(1531402980, 0)], qwLoadAddressNext = 0x0000511f00000000 \<rparr>"
  have c: "pPdbContext ex_state1 = Some ?ctx" by (simp add: ex_state1_eq)
  have d: "\<not> fDisabled ?ctx" by simp
  have a: "Ob_Alloc_ok ex_env" by (simp add: ex_env_def)
  have n1: "\<not> ObMap_ExistsKey (pmPdbByHash ?ctx) (PDB_HashPdb ex_externals ''hal.pdb'' (replicate 16 2) 1)"
    by (simp add: ex_hash_hal ObMap_ExistsKey_def)
  have n2: "\<not> ObMap_ExistsKey (pmPdbByHash ?ctx) (PDB_HashPdb ex_externals ''halacpi.pdb'' (replicate 16 3) 1)"
    by (simp add: ex_hash_halacpi ObMap_ExistsKey_def)
  have di: "PDB_HashPdb ex_externals ''hal.pdb'' (replicate 16 2) 1 \<noteq>
            PDB_HashPdb ex_externals ''halacpi.pdb'' (replicate 16 3) 1"
    by (simp add: ex_hash_hal ex_hash_halacpi)
  have f: "\<not> ObMap_ExistsKey (pmPdbByModule ?ctx) (ucast (PDB_HashModuleName ex_externals ''hal''))"
    by (simp add: ex_hash_name_hal ObMap_ExistsKey_def)
  have m: "''hal'' \<noteq> ''nt''" by simp
  have al: "\<forall>p \<in> snd ` set (pmPdbByModule ?ctx). p < ob_next ex_state1"
    by (simp add: ex_state1_eq)
  have r: "PDB_AddModuleEntry ex_externals ex_env ex_state1 0xfffff80000800000 0x100000
          ''hal'' ''hal.pdb'' (replicate 16 2) 1
     = (1353929630001369674,
        ex_state1 \<lparr> pPdbContext := Some \<lparr> fDisabled = False,
             pmPdbByHash = [(9990424309917835612, 0), (1353929630001369674, 1)],
             pmPdbByModule = [(1531402980, 0), (50862700, 1)],
             qwLoadAddressNext = 0x0000511f00000000 \<rparr>,
          objs := (objs ex_state1)(1 := \<lparr> qwHash = 1353929630001369674, vaModuleBase = 0xfffff80000800000,
             szModuleName = Some ''hal'', szName = Some ''hal.pdb'', pbGUID = replicate 16 2, dwAge = 1,
             cbModuleSize = 0x100000, fLoadFailed = False, szPath = None, qwLoadAddress = 0 \<rparr>),
          ob_next := 2 \<rparr>)"
    by (simp add: PDB_AddModuleEntry_def ex_state1_eq ex_hash_hal ex_hash_name_hal
          ObMap_ExistsKey_def ObMap_Push_def ex_env_def Util_StrDupA_def PDB_ENTRY_zero_def)
  note t = PDB_AddModuleEntry_name_collision [OF c d a a n1 n2 di f m al, of "0xfffff80000800000" "0x100000"
                 "0xfffff80000900000" "0x100000"]
  from t have "PDB_GetHandleFromModuleName ex_externals
        (snd (PDB_AddModuleEntry ex_externals ex_env
          (snd (PDB_AddModuleEntry ex_externals ex_env ex_state1 0xfffff80000800000 0x100000
                  ''hal'' ''hal.pdb'' (replicate 16 2) 1))
          0xfffff80000900000 0x100000 ''hal'' ''halacpi.pdb'' (replicate 16 3) 1))
        (Some ''hal'') = 1353929630001369674"
    by (simp add: Let_def ex_hash_hal)
  with r show ?thesis by blast
qed


subsection \<open>Type display\<close>

lemma DoWork_levels_append [simp]:
  "DoWork_levels (a @ b) = DoWork_levels a @ DoWork_levels b"
  by (induction a rule: DoWork_levels.induct) simp_all

lemma DoWork_lines_append [simp]:
  "DoWork_lines (a @ b) = DoWork_lines a @ DoWork_lines b"
  by (induction a rule: DoWork_lines.induct) simp_all


declare PDB_DisplayTypeNt_DoWork.simps [simp del]



lemma DoWork_ptr_name_fields [simp]:
  "dwOffset (DoWork_ptr_name ctxDT pe) = dwOffset pe"
  "wszName (DoWork_ptr_name ctxDT pe) = wszName pe"
  "qwBitFieldLength (DoWork_ptr_name ctxDT pe) = qwBitFieldLength pe"
  "dwTag (DoWork_ptr_name ctxDT pe) = dwTag pe"
  "dwArrayCount (DoWork_ptr_name ctxDT pe) = dwArrayCount pe"
  "dwPtrTypeIndex (DoWork_ptr_name ctxDT pe) = dwPtrTypeIndex pe"
  by (simp_all add: DoWork_ptr_name_def)

lemma DoWork_ptr_base_fields [simp]:
  "dwOffset (DoWork_ptr_base ctxDT pe) = dwOffset pe"
  "wszName (DoWork_ptr_base ctxDT pe) = wszName pe"
  "qwBitFieldLength (DoWork_ptr_base ctxDT pe) = qwBitFieldLength pe"
  "dwTag (DoWork_ptr_base ctxDT pe) = dwTag pe"
  by (cases "SymGetTypeInfo_BASETYPE (pfn ctxDT) (BaseOfDll ctxDT) (dwPtrTypeIndex pe)";
      cases "SymGetTypeInfo_SYMTAG (pfn ctxDT) (BaseOfDll ctxDT) (dwPtrTypeIndex pe)";
      simp add: DoWork_ptr_base_def Let_def)+


lemma DoWork_ptr_base_more [simp]:
  "wszTypeName (DoWork_ptr_base ctxDT pe) = wszTypeName pe"
  "dwArrayCount (DoWork_ptr_base ctxDT pe) = dwArrayCount pe"
  "dwPtrTypeIndex (DoWork_ptr_base ctxDT pe) = dwPtrTypeIndex pe"
  by (cases "SymGetTypeInfo_BASETYPE (pfn ctxDT) (BaseOfDll ctxDT) (dwPtrTypeIndex pe)";
      cases "SymGetTypeInfo_SYMTAG (pfn ctxDT) (BaseOfDll ctxDT) (dwPtrTypeIndex pe)";
      simp add: DoWork_ptr_base_def Let_def)+

lemma DoWork_is_special_ptr_base [simp]:
  "DoWork_is_special (DoWork_ptr_base ctxDT pe) = DoWork_is_special pe"
  by (cases "wszTypeName pe") (simp_all add: DoWork_is_special_def)

lemma DoWork_special_fields [simp]:
  "dwOffset (DoWork_special pe) = dwOffset pe"
  "wszName (DoWork_special pe) = wszName pe"
  "qwBitFieldLength (DoWork_special pe) = qwBitFieldLength pe"
  "wszTypeName (DoWork_special pe) = wszTypeName pe"
  "dwArrayCount (DoWork_special pe) = dwArrayCount pe"
  "dwPtrTypeIndex (DoWork_special pe) = dwPtrTypeIndex pe"
  by (simp_all add: DoWork_special_def)



lemma DoWork_line_head_resolve [simp]:
  "DoWork_line_head iLevel (DoWork_special (DoWork_ptr_base ctxDT pe)) = DoWork_line_head iLevel pe"
  "DoWork_line_head iLevel (DoWork_ptr_name ctxDT pe) = DoWork_line_head iLevel pe"
  by (simp_all add: DoWork_line_head_def)









lemma ex_run_100_0:
  "PDB_DisplayTypeNt_DoWork False (ex_ctxDT 0) 0 100 2 None None 0 =
     [DoWork_entered 0 100 2,
      DoWork_commit [P_offset_name 0 0 (Some (wstr ''ListHead'')), P_udt (Some (wstr ''_LIST_ENTRY''))],
      DoWork_commit [P_offset_name 0 0x10 (Some (wstr ''Count'')), P_type (wstr ''dword'') []]]"
  by code_simp




lemma line_bits_append [simp]: "line_bits (a @ b) = line_bits a @ line_bits b"
  by (induction a rule: line_bits.induct) simp_all

lemma line_bits_head [simp]: "line_bits (DoWork_line_head iLevel pe) = []"
  by (simp add: DoWork_line_head_def)

lemma line_bits_data [simp]: "line_bits (DoWork_data pb pe cbType qwBitBase) = []"
  by (cases pb) (simp_all add: DoWork_data_def Let_def)

lemma line_bits_unicode_string [simp]: "line_bits (DoWork_unicode_string f ctxDT cc wt pb i) = []"
  by (cases pb) (simp_all add: DoWork_unicode_string_def Let_def split: option.splits)









end
